theory Spec2Isabelle
  imports Main "HOL-Library.Multiset"
begin

section \<open>JavaScript values\<close>

text \<open>
  The services are TypeScript. The filter object of \<open>filterEmployees\<close> is read
  field by field and each field is tested for truthiness, so a field is modelled as a
  JavaScript value: \<open>undefined\<close>, \<open>null\<close>, a boolean, a number (the identity numbers
  and flags that occur here are integers), a string, or an object such as a \<open>Date\<close>,
  which carries the text its \<open>toString\<close> gives.
\<close>

datatype jsval = JUndefined | JNull | JBool bool | JNum int | JStr string | JObj string

fun truthy :: "jsval \<Rightarrow> bool" where
  "truthy JUndefined = False"
| "truthy JNull = False"
| "truthy (JBool b) = b"
| "truthy (JNum n) = (n \<noteq> 0)"
| "truthy (JStr s) = (s \<noteq> [])"
| "truthy (JObj _) = True"

definition digit_char :: "nat \<Rightarrow> char" where
  "digit_char d = ''0123456789'' ! d"

fun string_of_nat :: "nat \<Rightarrow> string" where
  "string_of_nat n =
     (if n < 10 then [digit_char n] else string_of_nat (n div 10) @ [digit_char (n mod 10)])"

declare string_of_nat.simps [simp del]

text \<open>
  \<open>String(n)\<close> of an integer \<open>n\<close>: its decimal digits, with a sign when negative.
  JavaScript writes an integer of 22 digits or more in exponent form; identity numbers
  are far shorter, and the digits are what is modelled.
\<close>

definition String_num :: "int \<Rightarrow> string" where
  "String_num i = (if i < 0 then CHR ''-'' # string_of_nat (nat (- i)) else string_of_nat (nat i))"

text \<open>The text a value has inside a template string \<open>`%${v}%`\<close>.\<close>

fun js_String :: "jsval \<Rightarrow> string" where
  "js_String JUndefined = ''undefined''"
| "js_String JNull = ''null''"
| "js_String (JBool b) = (if b then ''true'' else ''false'')"
| "js_String (JNum n) = String_num n"
| "js_String (JStr s) = s"
| "js_String (JObj s) = s"

section \<open>Entities\<close>

text \<open>
  Modelled from the spec: the entity classes and \<open>constants/app.constant\<close> are not
  among the source files. Section 3 of the specification gives every entity its
  fields and a soft-delete \<open>status\<close> that is Active or Inactive.
\<close>

datatype Status = Active | Inactive

type_synonym Date = nat

record VaccineEntity =
  vaccine_id :: nat
  vaccine_vaccineType :: string
  vaccine_status :: Status

section \<open>Vaccine lookup\<close>

text \<open>
  \<open>getVaccines\<close> builds \<open>WHERE vaccine.status = Active ORDER BY vaccine.vaccineType ASC\<close>
  and returns \<open>getMany()\<close>. The order on strings is the database's collation, a
  parameter \<open>le\<close> here; \<open>orderBy\<close> sorts by insertion, keeping the stored order of
  rows with equal keys.
\<close>

fun insert_by :: "('k \<Rightarrow> 'k \<Rightarrow> bool) \<Rightarrow> ('a \<Rightarrow> 'k) \<Rightarrow> 'a \<Rightarrow> 'a list \<Rightarrow> 'a list" where
  "insert_by le key x [] = [x]"
| "insert_by le key x (y # ys) =
     (if le (key x) (key y) then x # y # ys else y # insert_by le key x ys)"

fun orderBy :: "('k \<Rightarrow> 'k \<Rightarrow> bool) \<Rightarrow> ('a \<Rightarrow> 'k) \<Rightarrow> 'a list \<Rightarrow> 'a list" where
  "orderBy le key [] = []"
| "orderBy le key (x # xs) = insert_by le key x (orderBy le key xs)"

definition getVaccines :: "(string \<Rightarrow> string \<Rightarrow> bool) \<Rightarrow> VaccineEntity list \<Rightarrow> VaccineEntity list" where
  "getVaccines le vaccineRepository =
     orderBy le vaccine_vaccineType
       (filter (\<lambda>v. vaccine_status v = Active) vaccineRepository)"

text \<open>A collation that compares strings character by character, for concrete runs.\<close>

fun string_le :: "string \<Rightarrow> string \<Rightarrow> bool" where
  "string_le [] ys = True"
| "string_le (x # xs) [] = False"
| "string_le (x # xs) (y # ys) =
     (of_char x < (of_char y :: nat) \<or> (x = y \<and> string_le xs ys))"

section \<open>Employee filter builder\<close>

text \<open>
  A \<open>SelectQueryBuilder\<close> accumulates WHERE clauses: \<open>andWhere(sql, parameters)\<close>
  appends one. Whatever else the builder holds (alias, joins) is the record's extension
  and is carried along untouched.
\<close>

type_synonym where_clause = "string \<times> (string \<times> jsval) list"

record SelectQueryBuilder =
  wheres :: "where_clause list"

definition andWhere ::
  "string \<Rightarrow> (string \<times> jsval) list \<Rightarrow> 'a SelectQueryBuilder_scheme \<Rightarrow> 'a SelectQueryBuilder_scheme" where
  "andWhere sql parameters qb = qb\<lparr>wheres := wheres qb @ [(sql, parameters)]\<rparr>"

record FilterEmployeeDto =
  f_dni :: jsval
  f_email :: jsval
  f_completeName :: jsval
  f_vaccine :: jsval
  f_isVaccinated :: jsval
  f_startDate :: jsval
  f_finishDate :: jsval

definition sql_dni :: string where
  "sql_dni = ''CAST(person.dni AS varchar) ILIKE :dni''"

definition sql_email :: string where
  "sql_email = ''employee.email ILIKE :email''"

definition sql_completeName :: string where
  "sql_completeName = ''CONCAT(person.firstName, ' ', person.lastName) ILIKE :completeName''"

definition sql_vaccine :: string where
  "sql_vaccine = ''vaccine.vaccineType ILIKE :vaccine''"

definition sql_isVaccinated :: string where
  "sql_isVaccinated = ''employee.vaccinationStatus =:isVaccinated''"

definition sql_vaccinationDate :: string where
  "sql_vaccinationDate =
     ''employeeVaccinations.vaccinationDate BETWEEN :startDate AND :finishDate''"

definition like_pattern :: "jsval \<Rightarrow> jsval" where
  "like_pattern v = JStr (''%'' @ js_String v @ ''%'')"

definition filterEmployees ::
  "'a SelectQueryBuilder_scheme \<Rightarrow> FilterEmployeeDto \<Rightarrow> 'a SelectQueryBuilder_scheme" where
  "filterEmployees employees filters =
     (let dni = f_dni filters;
          email = f_email filters;
          completeName = f_completeName filters;
          vaccine = f_vaccine filters;
          isVaccinated = f_isVaccinated filters;
          startDate = f_startDate filters;
          finishDate = f_finishDate filters;
          employees =
            (if truthy dni
             then andWhere sql_dni [(''dni'', like_pattern dni)] employees
             else employees);
          employees =
            (if truthy email
             then andWhere sql_email [(''email'', like_pattern email)] employees
             else employees);
          employees =
            (if truthy completeName
             then andWhere sql_completeName
                    [(''completeName'', like_pattern completeName)] employees
             else employees);
          employees =
            (if truthy vaccine
             then andWhere sql_vaccine [(''vaccine'', like_pattern vaccine)] employees
             else employees);
          employees =
            (if truthy isVaccinated
             then andWhere sql_isVaccinated [(''isVaccinated'', isVaccinated)] employees
             else employees);
          employees =
            (if truthy startDate \<and> truthy finishDate
             then andWhere sql_vaccinationDate
                    [(''startDate'', startDate), (''finishDate'', finishDate)] employees
             else employees)
      in employees)"

text \<open>The filter object with no field set.\<close>

definition empty_filter :: FilterEmployeeDto where
  "empty_filter =
     \<lparr>f_dni = JUndefined, f_email = JUndefined, f_completeName = JUndefined,
      f_vaccine = JUndefined, f_isVaccinated = JUndefined, f_startDate = JUndefined,
      f_finishDate = JUndefined\<rparr>"

text \<open>The clauses that a call of \<open>filterEmployees\<close> adds to the builder.\<close>

definition appended :: "'a SelectQueryBuilder_scheme \<Rightarrow> FilterEmployeeDto \<Rightarrow> where_clause list" where
  "appended employees filters = drop (length (wheres employees)) (wheres (filterEmployees employees filters))"

text \<open>The clauses of a list that carry a given SQL text.\<close>

definition clauses_of :: "string \<Rightarrow> where_clause list \<Rightarrow> where_clause list" where
  "clauses_of sql cs = filter (\<lambda>c. fst c = sql) cs"

definition bool_count :: "bool \<Rightarrow> nat" where
  "bool_count b = (if b then 1 else 0)"

section \<open>The relational store\<close>

text \<open>
  Modelled from the spec: the entity classes are not among the source files; their
  fields are those of section 3 of the specification and those the services read and
  write. A table is the list of its rows in stored order; a relation is a foreign key.
\<close>

record PersonEntity =
  person_id :: nat
  person_dni :: int
  person_firstName :: string
  person_lastName :: string
  person_status :: Status
  person_createdDate :: Date

record RoleEntity =
  role_id :: nat
  role_name :: string
  role_status :: Status

record employee_row =
  er_id :: nat
  er_email :: string
  er_birthDate :: Date
  er_homeAddress :: string
  er_mobilePhone :: string
  er_vaccinationStatus :: bool
  er_status :: Status
  er_createdDate :: Date
  er_personId :: nat

record user_row =
  ur_id :: nat
  ur_username :: string
  ur_password :: string
  ur_status :: Status
  ur_createdDate :: Date
  ur_employeeId :: nat

record userRole_row =
  urr_id :: nat
  urr_status :: Status
  urr_createdDate :: Date
  urr_userId :: nat
  urr_roleId :: "nat option"

record employeeVaccination_row =
  evr_id :: nat
  evr_doseNumber :: nat
  evr_vaccinationDate :: Date
  evr_status :: Status
  evr_employeeId :: nat
  evr_vaccineId :: nat

record store =
  persons :: "PersonEntity list"
  employees :: "employee_row list"
  users :: "user_row list"
  roles :: "RoleEntity list"
  userRoles :: "userRole_row list"
  vaccines :: "VaccineEntity list"
  employeeVaccinations :: "employeeVaccination_row list"

text \<open>
  The entities as a joined read returns them: each relation that the query selects is
  loaded into the object, \<open>null\<close> (here \<open>None\<close>) when the left join finds no row.
\<close>

record UserRoleEntity =
  userRole_id :: nat
  userRole_status :: Status
  userRole_createdDate :: Date
  userRole_role :: "RoleEntity option"

record UserEntity =
  user_id :: nat
  user_username :: string
  user_password :: string
  user_status :: Status
  user_createdDate :: Date
  user_userRoles :: "UserRoleEntity list"

text \<open>The user role that \<open>createUserRole\<close> returns also holds the user it was given.\<close>

record SavedUserRole = UserRoleEntity +
  userRole_user :: "UserEntity option"

record EmployeeVaccinationEntity =
  employeeVaccination_id :: nat
  employeeVaccination_doseNumber :: nat
  employeeVaccination_vaccinationDate :: Date
  employeeVaccination_status :: Status
  employeeVaccination_vaccine :: "VaccineEntity option"

record EmployeeEntity =
  employee_id :: nat
  employee_email :: string
  employee_birthDate :: Date
  employee_homeAddress :: string
  employee_mobilePhone :: string
  employee_vaccinationStatus :: bool
  employee_status :: Status
  employee_createdDate :: Date
  employee_person :: "PersonEntity option"
  employee_user :: "UserEntity option"
  employee_employeeVaccinations :: "EmployeeVaccinationEntity list"

section \<open>Employee query composer\<close>

text \<open>
  \<open>getEmployee\<close> left-joins person, user, employeeVaccinations, vaccine, userRoles and
  role, every join with the condition that the joined row's status is Active. The
  functions below load one employee row with its joined rows.
\<close>

definition join_role :: "store \<Rightarrow> userRole_row \<Rightarrow> RoleEntity option" where
  "join_role s r =
     (case urr_roleId r of
        None \<Rightarrow> None
      | Some rid \<Rightarrow> find (\<lambda>x. role_id x = rid \<and> role_status x = Active) (roles s))"

definition join_userRoles :: "store \<Rightarrow> user_row \<Rightarrow> UserRoleEntity list" where
  "join_userRoles s u =
     map (\<lambda>r. \<lparr>userRole_id = urr_id r, userRole_status = urr_status r,
               userRole_createdDate = urr_createdDate r, userRole_role = join_role s r\<rparr>)
       (filter (\<lambda>r. urr_userId r = ur_id u \<and> urr_status r = Active) (userRoles s))"

definition join_user :: "store \<Rightarrow> employee_row \<Rightarrow> UserEntity option" where
  "join_user s e =
     map_option
       (\<lambda>u. \<lparr>user_id = ur_id u, user_username = ur_username u,
              user_password = ur_password u, user_status = ur_status u,
              user_createdDate = ur_createdDate u, user_userRoles = join_userRoles s u\<rparr>)
       (find (\<lambda>u. ur_employeeId u = er_id e \<and> ur_status u = Active) (users s))"

definition join_vaccine :: "store \<Rightarrow> employeeVaccination_row \<Rightarrow> VaccineEntity option" where
  "join_vaccine s v =
     find (\<lambda>x. vaccine_id x = evr_vaccineId v \<and> vaccine_status x = Active) (vaccines s)"

definition join_employeeVaccinations ::
  "store \<Rightarrow> employee_row \<Rightarrow> EmployeeVaccinationEntity list" where
  "join_employeeVaccinations s e =
     map (\<lambda>v. \<lparr>employeeVaccination_id = evr_id v,
               employeeVaccination_doseNumber = evr_doseNumber v,
               employeeVaccination_vaccinationDate = evr_vaccinationDate v,
               employeeVaccination_status = evr_status v,
               employeeVaccination_vaccine = join_vaccine s v\<rparr>)
       (filter (\<lambda>v. evr_employeeId v = er_id e \<and> evr_status v = Active)
          (employeeVaccinations s))"

definition join_person :: "store \<Rightarrow> employee_row \<Rightarrow> PersonEntity option" where
  "join_person s e =
     find (\<lambda>p. person_id p = er_personId e \<and> person_status p = Active) (persons s)"

definition joined :: "store \<Rightarrow> employee_row \<Rightarrow> EmployeeEntity" where
  "joined s e =
     \<lparr>employee_id = er_id e, employee_email = er_email e,
      employee_birthDate = er_birthDate e, employee_homeAddress = er_homeAddress e,
      employee_mobilePhone = er_mobilePhone e,
      employee_vaccinationStatus = er_vaccinationStatus e,
      employee_status = er_status e, employee_createdDate = er_createdDate e,
      employee_person = join_person s e, employee_user = join_user s e,
      employee_employeeVaccinations = join_employeeVaccinations s e\<rparr>"

text \<open>
  The WHERE clauses of \<open>getEmployee\<close>, by what they test on a joined employee. A test
  on a column of the joined person fails when the join found no person.
\<close>

datatype where_cond =
  StatusActive
| PersonDniEq int
| EmailEq string
| IdEq nat

fun holds :: "where_cond \<Rightarrow> EmployeeEntity \<Rightarrow> bool" where
  "holds StatusActive e = (employee_status e = Active)"
| "holds (PersonDniEq dni) e =
     (case employee_person e of None \<Rightarrow> False | Some p \<Rightarrow> person_dni p = dni)"
| "holds (EmailEq email) e = (employee_email e = email)"
| "holds (IdEq employeeId) e = (employee_id e = employeeId)"

text \<open>\<open>getOne()\<close>: the first joined employee that passes every clause, if any.\<close>

definition getOne :: "where_cond list \<Rightarrow> store \<Rightarrow> EmployeeEntity option" where
  "getOne conds s =
     find (\<lambda>e. list_all (\<lambda>c. holds c e) conds) (map (joined s) (employees s))"



text \<open>
  The arguments of \<open>getEmployee\<close> are optional: \<open>None\<close> is an argument that is left
  out or passed as \<open>null\<close>. A number is falsy when it is 0, a string when it is empty.
\<close>

definition getEmployee_query :: "int option \<Rightarrow> string option \<Rightarrow> nat option \<Rightarrow> where_cond list" where
  "getEmployee_query dni email employeeId =
     (let employee = [StatusActive];
          employee =
            (case dni of
               Some d \<Rightarrow> if d \<noteq> 0 then employee @ [PersonDniEq d] else employee
             | None \<Rightarrow> employee);
          employee =
            (case email of
               Some m \<Rightarrow> if m \<noteq> [] then employee @ [EmailEq m] else employee
             | None \<Rightarrow> employee);
          employee =
            (case employeeId of
               Some i \<Rightarrow> if i \<noteq> 0 then employee @ [IdEq i] else employee
             | None \<Rightarrow> employee)
      in employee)"

definition getEmployee ::
  "store \<Rightarrow> int option \<Rightarrow> string option \<Rightarrow> nat option \<Rightarrow> EmployeeEntity option" where
  "getEmployee s dni email employeeId = getOne (getEmployee_query dni email employeeId) s"

section \<open>Employee projector\<close>

datatype HttpStatus = BAD_REQUEST

text \<open>
  What an operation can raise: an \<open>EmployeeException\<close> with its error kind, the
  \<open>TypeError\<close> of reading a property of \<open>null\<close> or \<open>undefined\<close>, and the rejection of
  \<open>bcrypt.hash\<close>.
\<close>

datatype error =
  EmployeeException string HttpStatus
| TypeError
| BcryptError

record Vaccine =
  v_id :: "nat option"
  v_name :: "string option"
  v_doseNumber :: nat
  v_vaccinationDate :: Date
  v_employeeVaccinationId :: nat

record Role =
  r_id :: "nat option"
  r_name :: "string option"

record Employee =
  e_id :: nat
  e_dni :: int
  e_firstName :: "string option"
  e_lastName :: "string option"
  e_birthDate :: Date
  e_homeAddress :: string
  e_mobilePhone :: string
  e_status :: string
  e_username :: "string option"
  e_password :: "string option"
  e_vaccinationStatus :: bool
  e_vaccines :: "Vaccine list option"
  e_roles :: "Role list option"

text \<open>
  The object literal that \<open>mapEmployees\<close> builds for one employee. \<open>employee.person.dni\<close>
  has no optional chaining: without a person the read raises.
\<close>

definition mapEmployee :: "EmployeeEntity \<Rightarrow> error + Employee" where
  "mapEmployee employee =
     (case employee_person employee of
        None \<Rightarrow> Inl TypeError
      | Some person \<Rightarrow>
          Inr \<lparr>e_id = employee_id employee,
               e_dni = person_dni person,
               e_firstName = Some (person_firstName person),
               e_lastName = Some (person_lastName person),
               e_birthDate = employee_birthDate employee,
               e_homeAddress = employee_homeAddress employee,
               e_mobilePhone = employee_mobilePhone employee,
               e_status = (if employee_status employee = Active then ''Active'' else ''Inactive''),
               e_username = map_option user_username (employee_user employee),
               e_password = map_option user_password (employee_user employee),
               e_vaccinationStatus = employee_vaccinationStatus employee,
               e_vaccines =
                 (if length (employee_employeeVaccinations employee) > 0
                  then Some (map (\<lambda>employeeVaccination.
                         \<lparr>v_id = map_option vaccine_id
                                   (employeeVaccination_vaccine employeeVaccination),
                          v_name = map_option vaccine_vaccineType
                                     (employeeVaccination_vaccine employeeVaccination),
                          v_doseNumber = employeeVaccination_doseNumber employeeVaccination,
                          v_vaccinationDate =
                            employeeVaccination_vaccinationDate employeeVaccination,
                          v_employeeVaccinationId = employeeVaccination_id employeeVaccination\<rparr>)
                         (employee_employeeVaccinations employee))
                  else None),
               e_roles =
                 (case employee_user employee of
                    None \<Rightarrow> None
                  | Some user \<Rightarrow>
                      if length (user_userRoles user) > 0
                      then Some (map (\<lambda>userRole.
                             \<lparr>r_id = map_option role_id (userRole_role userRole),
                              r_name = map_option role_name (userRole_role userRole)\<rparr>)
                             (user_userRoles user))
                      else None)\<rparr>)"

text \<open>\<open>employees.map(...)\<close>: the first employee whose projection raises ends the call.\<close>

fun mapEmployees :: "EmployeeEntity list \<Rightarrow> error + Employee list" where
  "mapEmployees [] = Inr []"
| "mapEmployees (employee # rest) =
     (case mapEmployee employee of
        Inl err \<Rightarrow> Inl err
      | Inr r \<Rightarrow>
          (case mapEmployees rest of
             Inl err \<Rightarrow> Inl err
           | Inr rs \<Rightarrow> Inr (r # rs)))"


text \<open>
  \<open>myInformation\<close> repeats the object literal of \<open>mapEmployees\<close> on the result of
  \<open>getEmployee(dni)\<close>; with no employee found, \<open>employee.id\<close> raises.
\<close>

definition myInformation :: "store \<Rightarrow> int \<Rightarrow> error + Employee" where
  "myInformation s dni =
     (case getEmployee s (Some dni) None None of
        None \<Rightarrow> Inl TypeError
      | Some employee \<Rightarrow>
          (case employee_person employee of
             None \<Rightarrow> Inl TypeError
           | Some person \<Rightarrow>
               Inr \<lparr>e_id = employee_id employee,
                    e_dni = person_dni person,
                    e_firstName = Some (person_firstName person),
                    e_lastName = Some (person_lastName person),
                    e_birthDate = employee_birthDate employee,
                    e_homeAddress = employee_homeAddress employee,
                    e_mobilePhone = employee_mobilePhone employee,
                    e_status =
                      (if employee_status employee = Active then ''Active'' else ''Inactive''),
                    e_username = map_option user_username (employee_user employee),
                    e_password = map_option user_password (employee_user employee),
                    e_vaccinationStatus = employee_vaccinationStatus employee,
                    e_vaccines =
                      (if length (employee_employeeVaccinations employee) > 0
                       then Some (map (\<lambda>employeeVaccination.
                              \<lparr>v_id = map_option vaccine_id
                                        (employeeVaccination_vaccine employeeVaccination),
                               v_name = map_option vaccine_vaccineType
                                          (employeeVaccination_vaccine employeeVaccination),
                               v_doseNumber =
                                 employeeVaccination_doseNumber employeeVaccination,
                               v_vaccinationDate =
                                 employeeVaccination_vaccinationDate employeeVaccination,
                               v_employeeVaccinationId =
                                 employeeVaccination_id employeeVaccination\<rparr>)
                              (employee_employeeVaccinations employee))
                       else None),
                    e_roles =
                      (case employee_user employee of
                         None \<Rightarrow> None
                       | Some user \<Rightarrow>
                           if length (user_userRoles user) > 0
                           then Some (map (\<lambda>userRole.
                                  \<lparr>r_id = map_option role_id (userRole_role userRole),
                                   r_name = map_option role_name (userRole_role userRole)\<rparr>)
                                  (user_userRoles user))
                           else None)\<rparr>))"

section \<open>Collaborators of the employee service\<close>

text \<open>
  Modelled from the spec: \<open>PersonService\<close>, \<open>UserService\<close>, \<open>RoleService\<close> and
  \<open>UserRoleService\<close> are not among the source files. Section 6 of the specification
  has them as plain providers of lookup, creation and update by id, and section 4.5 has a
  created row start Active. A created row gets an identifier that no row of its table has.
  \<open>getPerson\<close> looks an existing person up by dni (section 4.5, steps 1 and 2: the
  creation fails if a person with that dni already exists); \<open>getRole\<close> looks a role up by
  name among the Active roles (section 3: reads filter to Active).
\<close>

definition fresh_id :: "nat list \<Rightarrow> nat" where
  "fresh_id ids = Suc (fold max ids 0)"

definition getPerson :: "store \<Rightarrow> int \<Rightarrow> PersonEntity option" where
  "getPerson s dni = find (\<lambda>p. person_dni p = dni) (persons s)"

definition getRole :: "store \<Rightarrow> string \<Rightarrow> RoleEntity option" where
  "getRole s name = find (\<lambda>r. role_name r = name \<and> role_status r = Active) (roles s)"

text \<open>
  A \<open>new PersonEntity()\<close> (and likewise for the other entities) with the fields that
  \<open>createEmploye\<close> assigns before it hands the object to the service.
\<close>

record NewPerson =
  np_dni :: int
  np_firstName :: string
  np_lastName :: string
  np_createdDate :: Date

record NewEmployee =
  ne_email :: string
  ne_birthDate :: Date
  ne_homeAddress :: string
  ne_mobilePhone :: string
  ne_vaccinationStatus :: bool
  ne_createdDate :: Date
  ne_person :: PersonEntity

record NewUser =
  nu_username :: string
  nu_password :: string
  nu_createdDate :: Date
  nu_employee :: EmployeeEntity

record NewUserRole =
  nur_user :: UserEntity
  nur_role :: "RoleEntity option"
  nur_createdDate :: Date

definition createPerson :: "NewPerson \<Rightarrow> store \<Rightarrow> PersonEntity \<times> store" where
  "createPerson person s =
     (let saved =
            \<lparr>person_id = fresh_id (map person_id (persons s)),
             person_dni = np_dni person,
             person_firstName = np_firstName person,
             person_lastName = np_lastName person,
             person_status = Active,
             person_createdDate = np_createdDate person\<rparr>
      in (saved, s\<lparr>persons := persons s @ [saved]\<rparr>))"

text \<open>\<open>_employeeRepository.save(employee)\<close> of a new employee inserts its row.\<close>

definition employeeRepository_save :: "NewEmployee \<Rightarrow> store \<Rightarrow> EmployeeEntity \<times> store" where
  "employeeRepository_save employee s =
     (let newId = fresh_id (map er_id (employees s));
          row =
            \<lparr>er_id = newId, er_email = ne_email employee,
             er_birthDate = ne_birthDate employee,
             er_homeAddress = ne_homeAddress employee,
             er_mobilePhone = ne_mobilePhone employee,
             er_vaccinationStatus = ne_vaccinationStatus employee,
             er_status = Active, er_createdDate = ne_createdDate employee,
             er_personId = person_id (ne_person employee)\<rparr>;
          saved =
            \<lparr>employee_id = newId, employee_email = ne_email employee,
             employee_birthDate = ne_birthDate employee,
             employee_homeAddress = ne_homeAddress employee,
             employee_mobilePhone = ne_mobilePhone employee,
             employee_vaccinationStatus = ne_vaccinationStatus employee,
             employee_status = Active, employee_createdDate = ne_createdDate employee,
             employee_person = Some (ne_person employee), employee_user = None,
             employee_employeeVaccinations = []\<rparr>
      in (saved, s\<lparr>employees := employees s @ [row]\<rparr>))"

definition createUser :: "NewUser \<Rightarrow> store \<Rightarrow> UserEntity \<times> store" where
  "createUser user s =
     (let newId = fresh_id (map ur_id (users s));
          row =
            \<lparr>ur_id = newId, ur_username = nu_username user,
             ur_password = nu_password user, ur_status = Active,
             ur_createdDate = nu_createdDate user,
             ur_employeeId = employee_id (nu_employee user)\<rparr>;
          saved =
            \<lparr>user_id = newId, user_username = nu_username user,
             user_password = nu_password user, user_status = Active,
             user_createdDate = nu_createdDate user, user_userRoles = []\<rparr>
      in (saved, s\<lparr>users := users s @ [row]\<rparr>))"

definition createUserRole :: "NewUserRole \<Rightarrow> store \<Rightarrow> SavedUserRole \<times> store" where
  "createUserRole userRole s =
     (let newId = fresh_id (map urr_id (userRoles s));
          row =
            \<lparr>urr_id = newId, urr_status = Active,
             urr_createdDate = nur_createdDate userRole,
             urr_userId = user_id (nur_user userRole),
             urr_roleId = map_option role_id (nur_role userRole)\<rparr>;
          saved =
            \<lparr>userRole_id = newId, userRole_status = Active,
             userRole_createdDate = nur_createdDate userRole,
             userRole_role = nur_role userRole,
             userRole_user = Some (nur_user userRole)\<rparr>
      in (saved, s\<lparr>userRoles := userRoles s @ [row]\<rparr>))"

text \<open>
  An update by id takes a partial entity: a field that the entity does not hold (\<open>None\<close>)
  is not written. With no id given, no row is addressed. What the persistence library does
  with a partial entity that holds no field at all, or with a field explicitly assigned
  \<open>undefined\<close>, depends on its version and is not modelled: the statements below are about
  updates in which every field is either set to a value or absent.
\<close>

record EmployeePartial =
  ep_birthDate :: "Date option"
  ep_email :: "string option"
  ep_homeAddress :: "string option"
  ep_mobilePhone :: "string option"
  ep_vaccinationStatus :: "bool option"
  ep_status :: "Status option"

record PersonPartial =
  pp_dni :: "int option"
  pp_firstName :: "string option"
  pp_lastName :: "string option"

record UserPartial =
  up_username :: "string option"
  up_password :: "string option"

definition set_field :: "'a option \<Rightarrow> 'a \<Rightarrow> 'a" where
  "set_field new old = (case new of None \<Rightarrow> old | Some v \<Rightarrow> v)"

definition employeeRepository_update :: "nat \<Rightarrow> EmployeePartial \<Rightarrow> store \<Rightarrow> store" where
  "employeeRepository_update employeeId partial s =
     s\<lparr>employees :=
         map (\<lambda>e. if er_id e = employeeId
                  then e\<lparr>er_birthDate := set_field (ep_birthDate partial) (er_birthDate e),
                         er_email := set_field (ep_email partial) (er_email e),
                         er_homeAddress := set_field (ep_homeAddress partial) (er_homeAddress e),
                         er_mobilePhone := set_field (ep_mobilePhone partial) (er_mobilePhone e),
                         er_vaccinationStatus :=
                           set_field (ep_vaccinationStatus partial) (er_vaccinationStatus e),
                         er_status := set_field (ep_status partial) (er_status e)\<rparr>
                  else e)
           (employees s)\<rparr>"

definition updatePerson :: "nat option \<Rightarrow> PersonPartial \<Rightarrow> store \<Rightarrow> store" where
  "updatePerson personId partial s =
     s\<lparr>persons :=
         map (\<lambda>p. if Some (person_id p) = personId
                  then p\<lparr>person_dni := set_field (pp_dni partial) (person_dni p),
                         person_firstName := set_field (pp_firstName partial) (person_firstName p),
                         person_lastName := set_field (pp_lastName partial) (person_lastName p)\<rparr>
                  else p)
           (persons s)\<rparr>"

definition updateuser :: "nat option \<Rightarrow> UserPartial \<Rightarrow> store \<Rightarrow> store" where
  "updateuser userId partial s =
     s\<lparr>users :=
         map (\<lambda>u. if Some (ur_id u) = userId
                  then u\<lparr>ur_username := set_field (up_username partial) (ur_username u),
                         ur_password := set_field (up_password partial) (ur_password u)\<rparr>
                  else u)
           (users s)\<rparr>"

text \<open>
  \<open>bcrypt.hash(data, saltRounds)\<close> of the bcrypt library: the digest it computes is a
  parameter; called with \<open>data\<close> undefined it rejects (data and salt arguments
  required).
\<close>

definition bcrypt_hash :: "(string \<Rightarrow> nat \<Rightarrow> string) \<Rightarrow> string option \<Rightarrow> nat \<Rightarrow> error + string" where
  "bcrypt_hash digest data saltRounds =
     (case data of None \<Rightarrow> Inl BcryptError | Some d \<Rightarrow> Inr (digest d saltRounds))"

section \<open>Employee mutation flow\<close>

record CreateEmployeeDto =
  ce_dni :: int
  ce_firstName :: string
  ce_lastName :: string
  ce_email :: string
  ce_birthDate :: Date
  ce_homeAddress :: string
  ce_mobilePhone :: string
  ce_vaccinationStatus :: bool
  ce_role :: string

record CreateEmployee =
  cr_id :: nat
  cr_dni :: int
  cr_firstName :: "string option"
  cr_lastName :: "string option"
  cr_birthDate :: Date
  cr_homeAddress :: string
  cr_mobilePhone :: string
  cr_status :: string
  cr_username :: "string option"
  cr_password :: "string option"
  cr_role :: "string option"

definition mapCreateEmployee :: "EmployeeEntity \<Rightarrow> SavedUserRole \<Rightarrow> error + CreateEmployee" where
  "mapCreateEmployee employee userrole =
     (case employee_person employee of
        None \<Rightarrow> Inl TypeError
      | Some person \<Rightarrow>
          Inr \<lparr>cr_id = employee_id employee,
               cr_dni = person_dni person,
               cr_firstName = Some (person_firstName person),
               cr_lastName = Some (person_lastName person),
               cr_birthDate = employee_birthDate employee,
               cr_homeAddress = employee_homeAddress employee,
               cr_mobilePhone = employee_mobilePhone employee,
               cr_status = (if employee_status employee = Active then ''Active'' else ''Inactive''),
               cr_username = map_option user_username (userRole_user userrole),
               cr_password = map_option user_password (userRole_user userrole),
               cr_role = map_option role_name (userRole_role userrole)\<rparr>)"

text \<open>
  \<open>createEmploye\<close>. The format validator \<open>validateID\<close> (its policy is external) and the
  clock reading \<open>currentDay\<close> are parameters. The result pairs what the call returns or
  raises with the store it leaves.
\<close>

definition createEmploye ::
  "(string \<Rightarrow> bool) \<Rightarrow> Date \<Rightarrow> CreateEmployeeDto \<Rightarrow> store \<Rightarrow> (error + CreateEmployee) \<times> store" where
  "createEmploye validateID currentDay createEmployee s =
     (let existPerson = getPerson s (ce_dni createEmployee);
          existEmailEmploye = getEmployee s None (Some (ce_email createEmployee)) None;
          isValidDni = validateID (String_num (ce_dni createEmployee));
          role = getRole s (ce_role createEmployee)
      in if existPerson \<noteq> None
         then (Inl (EmployeeException ''dni-exist'' BAD_REQUEST), s)
         else if existEmailEmploye \<noteq> None
         then (Inl (EmployeeException ''email-exist'' BAD_REQUEST), s)
         else if \<not> isValidDni
         then (Inl (EmployeeException ''invalid-dni'' BAD_REQUEST), s)
         else
           (let person =
                  \<lparr>np_dni = ce_dni createEmployee,
                   np_firstName = ce_firstName createEmployee,
                   np_lastName = ce_lastName createEmployee,
                   np_createdDate = currentDay\<rparr>;
                (savedPerson, s1) = createPerson person s;
                employee =
                  \<lparr>ne_email = ce_email createEmployee,
                   ne_birthDate = ce_birthDate createEmployee,
                   ne_homeAddress = ce_homeAddress createEmployee,
                   ne_mobilePhone = ce_mobilePhone createEmployee,
                   ne_vaccinationStatus = ce_vaccinationStatus createEmployee,
                   ne_createdDate = currentDay,
                   ne_person = savedPerson\<rparr>;
                (savedEmployee, s2) = employeeRepository_save employee s1;
                user =
                  \<lparr>nu_username = ce_email createEmployee,
                   nu_password = String_num (ce_dni createEmployee),
                   nu_createdDate = currentDay,
                   nu_employee = savedEmployee\<rparr>;
                (savedUser, s3) = createUser user s2;
                userRole =
                  \<lparr>nur_user = savedUser, nur_role = role, nur_createdDate = currentDay\<rparr>;
                (savedUserRole, s4) = createUserRole userRole s3
            in (mapCreateEmployee savedEmployee savedUserRole, s4)))"

text \<open>
  Modelled from the spec: \<open>Type\<close> and \<open>User\<close> of \<open>constants/app.constant\<close> are not among
  the source files; section 8 of the specification calls
  \<open>updateEmployee(12345678, "ADMINISTRATOR", "DELETE")\<close>.
\<close>

definition Type_DELETE :: string where
  "Type_DELETE = ''DELETE''"

definition Type_UPDATE :: string where
  "Type_UPDATE = ''UPDATE''"

definition User_ADMINISTRATOR :: string where
  "User_ADMINISTRATOR = ''ADMINISTRATOR''"

record UpdateEmployeeDto =
  ue_dni :: "int option"
  ue_firstName :: "string option"
  ue_lastName :: "string option"
  ue_email :: "string option"
  ue_birthDate :: "Date option"
  ue_homeAddress :: "string option"
  ue_mobilePhone :: "string option"
  ue_vaccinationStatus :: "bool option"
  ue_username :: "string option"
  ue_password :: "string option"

record DeleteConfirmation =
  d_message :: string
  d_id :: nat
  d_status :: string
  d_employeeName :: string
  d_dni :: int
  d_email :: string

record UpdateConfirmation =
  u_message :: string
  u_employee :: UpdateEmployeeDto

datatype update_result = Deleted DeleteConfirmation | Updated UpdateConfirmation

text \<open>\<open>String(updateEmployee?.dni)\<close>: the text \<open>undefined\<close> when the dto has no dni.\<close>

definition String_optnum :: "int option \<Rightarrow> string" where
  "String_optnum v = (case v of None \<Rightarrow> js_String JUndefined | Some n \<Rightarrow> String_num n)"

definition truthy_string :: "string option \<Rightarrow> bool" where
  "truthy_string v = (case v of None \<Rightarrow> False | Some t \<Rightarrow> t \<noteq> [])"

text \<open>The soft-delete branch of \<open>updateEmployee\<close>.\<close>

definition deleteBranch :: "EmployeeEntity \<Rightarrow> store \<Rightarrow> (error + update_result) \<times> store" where
  "deleteBranch findEmployee s =
     (let s1 = employeeRepository_update (employee_id findEmployee)
                 \<lparr>ep_birthDate = None, ep_email = None, ep_homeAddress = None,
                  ep_mobilePhone = None, ep_vaccinationStatus = None,
                  ep_status = Some Inactive\<rparr> s
      in case employee_person findEmployee of
           None \<Rightarrow> (Inl TypeError, s1)
         | Some person \<Rightarrow>
             (Inr (Deleted
                \<lparr>d_message = ''The employee has been deleted successfully'',
                 d_id = employee_id findEmployee,
                 d_status = ''Inactive'',
                 d_employeeName = person_firstName person @ '' '' @ person_lastName person,
                 d_dni = person_dni person,
                 d_email = employee_email findEmployee\<rparr>), s1))"

text \<open>
  The update branch. \<open>user\<close> is a \<open>new UserEntity()\<close>, so the \<open>user.password\<close> that is
  handed to \<open>bcrypt.hash\<close> is still undefined.
\<close>

definition updateBranch ::
  "(string \<Rightarrow> bool) \<Rightarrow> (string \<Rightarrow> nat \<Rightarrow> string) \<Rightarrow> EmployeeEntity \<Rightarrow> UpdateEmployeeDto \<Rightarrow> store
     \<Rightarrow> (error + update_result) \<times> store" where
  "updateBranch validateID digest findEmployee updateEmployeeDto s =
     (let employee =
            \<lparr>ep_birthDate = ue_birthDate updateEmployeeDto,
             ep_email = ue_email updateEmployeeDto,
             ep_homeAddress = ue_homeAddress updateEmployeeDto,
             ep_mobilePhone = ue_mobilePhone updateEmployeeDto,
             ep_vaccinationStatus = ue_vaccinationStatus updateEmployeeDto,
             ep_status = None\<rparr>;
          s1 = employeeRepository_update (employee_id findEmployee) employee s;
          isValidDni = validateID (String_optnum (ue_dni updateEmployeeDto));
          person =
            \<lparr>pp_dni = (if isValidDni then ue_dni updateEmployeeDto else None),
             pp_firstName = ue_firstName updateEmployeeDto,
             pp_lastName = ue_lastName updateEmployeeDto\<rparr>;
          s2 = updatePerson (map_option person_id (employee_person findEmployee)) person s1;
          user = \<lparr>up_username = None, up_password = None\<rparr>;
          hashed =
            (if truthy_string (ue_password updateEmployeeDto)
             then (case bcrypt_hash digest (up_password user) 10 of
                     Inl err \<Rightarrow> Inl err
                   | Inr hashedPassword \<Rightarrow> Inr (user\<lparr>up_password := Some hashedPassword\<rparr>))
             else Inr user)
      in case hashed of
           Inl err \<Rightarrow> (Inl err, s2)
         | Inr user \<Rightarrow>
             (let user = user\<lparr>up_username :=
                          (if truthy_string (ue_email updateEmployeeDto)
                           then ue_email updateEmployeeDto
                           else ue_username updateEmployeeDto)\<rparr>;
                  s3 = updateuser (map_option user_id (employee_user findEmployee)) user s2
              in (Inr (Updated
                    \<lparr>u_message = ''The employee has been updated successfully'',
                     u_employee = updateEmployeeDto\<rparr>), s3)))"

text \<open>
  \<open>updateEmployee(dni, role, type, updateEmployee)\<close>. Without a dto the update branch
  raises at its first read of \<open>updateEmployee.birthDate\<close>.
\<close>

definition updateEmployee ::
  "(string \<Rightarrow> bool) \<Rightarrow> (string \<Rightarrow> nat \<Rightarrow> string) \<Rightarrow> int \<Rightarrow> string option \<Rightarrow> string option
     \<Rightarrow> UpdateEmployeeDto option \<Rightarrow> store \<Rightarrow> (error + update_result) \<times> store" where
  "updateEmployee validateID digest dni role type updateEmployeeDto s =
     (case getEmployee s (Some dni) None None of
        None \<Rightarrow> (Inl (EmployeeException ''employee-not-found'' BAD_REQUEST), s)
      | Some findEmployee \<Rightarrow>
          if dni \<noteq> 0 \<and> type = Some Type_DELETE \<and> role = Some User_ADMINISTRATOR
          then deleteBranch findEmployee s
          else if dni \<noteq> 0 \<and> type = Some Type_UPDATE
          then (case updateEmployeeDto of
                  None \<Rightarrow> (Inl TypeError, s)
                | Some dto \<Rightarrow> updateBranch validateID digest findEmployee dto s)
          else (Inl (EmployeeException ''employee-not-found'' BAD_REQUEST), s))"

section \<open>Store conditions used in the statements\<close>

text \<open>The employee row has no Active row in the employee-vaccination table.\<close>

definition no_active_vaccination :: "store \<Rightarrow> employee_row \<Rightarrow> bool" where
  "no_active_vaccination s row =
     (\<not> list_ex (\<lambda>v. evr_employeeId v = er_id row \<and> evr_status v = Active)
          (employeeVaccinations s))"

text \<open>The Active user of the employee row, if there is one, has no Active user role.\<close>

definition no_active_userRole :: "store \<Rightarrow> employee_row \<Rightarrow> bool" where
  "no_active_userRole s row =
     (case find (\<lambda>u. ur_employeeId u = er_id row \<and> ur_status u = Active) (users s) of
        None \<Rightarrow> True
      | Some u \<Rightarrow>
          \<not> list_ex (\<lambda>r. urr_userId r = ur_id u \<and> urr_status r = Active) (userRoles s))"

text \<open>A person with the dni is stored; an Active employee with the email is stored.\<close>

definition person_with_dni :: "store \<Rightarrow> int \<Rightarrow> bool" where
  "person_with_dni s dni = list_ex (\<lambda>p. person_dni p = dni) (persons s)"

definition active_employee_with_email :: "store \<Rightarrow> string \<Rightarrow> bool" where
  "active_employee_with_email s email =
     list_ex (\<lambda>e. er_email e = email \<and> er_status e = Active) (employees s)"

text \<open>
  What the lookup by email of \<open>createEmploye\<close> finds: an Active employee with the email,
  or, the email being empty (no clause on it), any Active employee.
\<close>

definition email_lookup_finds :: "store \<Rightarrow> string \<Rightarrow> bool" where
  "email_lookup_finds s email =
     list_ex (\<lambda>e. er_status e = Active \<and> (email = [] \<or> er_email e = email)) (employees s)"

text \<open>
  An Active employee whose joined person has the dni is stored: what \<open>getEmployee(dni)\<close>
  can match.
\<close>

definition active_employee_with_dni :: "store \<Rightarrow> int \<Rightarrow> bool" where
  "active_employee_with_dni s dni =
     list_ex (\<lambda>e. er_status e = Active
                \<and> (case join_person s e of None \<Rightarrow> False | Some p \<Rightarrow> person_dni p = dni))
       (employees s)"

text \<open>The employees table after the soft delete of the employee with the given id.\<close>

definition soft_deleted :: "nat \<Rightarrow> employee_row list \<Rightarrow> employee_row list" where
  "soft_deleted employeeId rows =
     map (\<lambda>e. if er_id e = employeeId then e\<lparr>er_status := Inactive\<rparr> else e) rows"

section \<open>Concrete data\<close>

text \<open>
  A small store for concrete runs: Ana is an active employee with a user and the role
  NURSE and no vaccination; Luis was soft-deleted; Eva is active, has one active
  vaccination, and her user has no role.
\<close>

definition demo_store :: store where
  "demo_store =
     \<lparr>persons =
        [\<lparr>person_id = 1, person_dni = 12345678, person_firstName = ''Ana'',
          person_lastName = ''Diaz'', person_status = Active, person_createdDate = 100\<rparr>,
         \<lparr>person_id = 2, person_dni = 87654321, person_firstName = ''Luis'',
          person_lastName = ''Mora'', person_status = Active, person_createdDate = 100\<rparr>,
         \<lparr>person_id = 3, person_dni = 55555555, person_firstName = ''Eva'',
          person_lastName = ''Paz'', person_status = Active, person_createdDate = 100\<rparr>],
      employees =
        [\<lparr>er_id = 1, er_email = ''ana@x.com'', er_birthDate = 10, er_homeAddress = ''Quito'',
          er_mobilePhone = ''0991'', er_vaccinationStatus = False, er_status = Active,
          er_createdDate = 100, er_personId = 1\<rparr>,
         \<lparr>er_id = 2, er_email = ''luis@x.com'', er_birthDate = 20, er_homeAddress = ''Loja'',
          er_mobilePhone = ''0992'', er_vaccinationStatus = False, er_status = Inactive,
          er_createdDate = 100, er_personId = 2\<rparr>,
         \<lparr>er_id = 3, er_email = ''eva@x.com'', er_birthDate = 30, er_homeAddress = ''Cuenca'',
          er_mobilePhone = ''0993'', er_vaccinationStatus = True, er_status = Active,
          er_createdDate = 100, er_personId = 3\<rparr>],
      users =
        [\<lparr>ur_id = 1, ur_username = ''ana@x.com'', ur_password = ''old'', ur_status = Active,
          ur_createdDate = 100, ur_employeeId = 1\<rparr>,
         \<lparr>ur_id = 2, ur_username = ''eva@x.com'', ur_password = ''old'', ur_status = Active,
          ur_createdDate = 100, ur_employeeId = 3\<rparr>],
      roles =
        [\<lparr>role_id = 1, role_name = ''ADMINISTRATOR'', role_status = Active\<rparr>,
         \<lparr>role_id = 2, role_name = ''NURSE'', role_status = Active\<rparr>],
      userRoles =
        [\<lparr>urr_id = 1, urr_status = Active, urr_createdDate = 100, urr_userId = 1,
          urr_roleId = Some 2\<rparr>,
         \<lparr>urr_id = 2, urr_status = Inactive, urr_createdDate = 100, urr_userId = 2,
          urr_roleId = Some 2\<rparr>],
      vaccines =
        [\<lparr>vaccine_id = 1, vaccine_vaccineType = ''Pfizer'', vaccine_status = Active\<rparr>,
         \<lparr>vaccine_id = 2, vaccine_vaccineType = ''AstraZeneca'', vaccine_status = Active\<rparr>,
         \<lparr>vaccine_id = 3, vaccine_vaccineType = ''Sputnik'', vaccine_status = Inactive\<rparr>],
      employeeVaccinations =
        [\<lparr>evr_id = 1, evr_doseNumber = 1, evr_vaccinationDate = 50, evr_status = Active,
          evr_employeeId = 3, evr_vaccineId = 1\<rparr>,
         \<lparr>evr_id = 2, evr_doseNumber = 1, evr_vaccinationDate = 60, evr_status = Inactive,
          evr_employeeId = 1, evr_vaccineId = 2\<rparr>]\<rparr>"

text \<open>The same store after Ana's person row has been soft-deleted.\<close>

definition demo_store_person_deleted :: store where
  "demo_store_person_deleted =
     demo_store\<lparr>persons :=
       map (\<lambda>p. if person_id p = 1 then p\<lparr>person_status := Inactive\<rparr> else p)
         (persons demo_store)\<rparr>"

definition demo_create :: CreateEmployeeDto where
  "demo_create =
     \<lparr>ce_dni = 11223344, ce_firstName = ''Rosa'', ce_lastName = ''Vera'',
      ce_email = ''rosa@x.com'', ce_birthDate = 40, ce_homeAddress = ''Manta'',
      ce_mobilePhone = ''0994'', ce_vaccinationStatus = False, ce_role = ''NURSE''\<rparr>"

definition demo_update :: UpdateEmployeeDto where
  "demo_update =
     \<lparr>ue_dni = Some 99, ue_firstName = Some ''Anna'', ue_lastName = Some ''Dias'',
      ue_email = Some ''anna@x.com'', ue_birthDate = Some 11, ue_homeAddress = Some ''Ibarra'',
      ue_mobilePhone = Some ''0995'', ue_vaccinationStatus = Some True,
      ue_username = None, ue_password = None\<rparr>"

text \<open>A format validator for concrete runs: it accepts a text of eight characters.\<close>

definition demo_validateID :: "string \<Rightarrow> bool" where
  "demo_validateID t = (length t = 8)"

definition demo_digest :: "string \<Rightarrow> nat \<Rightarrow> string" where
  "demo_digest d saltRounds = ''$2b$'' @ String_num (int saltRounds) @ ''$'' @ d"

section \<open>Vaccine lookup: the result is the active vaccines in ascending order\<close>

lemma mset_insert_by: "mset (insert_by le key x xs) = add_mset x (mset xs)"
  by (induction xs) auto

lemma mset_orderBy: "mset (orderBy le key xs) = mset xs"
  by (induction xs) (auto simp: mset_insert_by)

lemma set_insert_by: "set (insert_by le key x xs) = insert x (set xs)"
  by (induction xs) auto

lemma sorted_insert_by:
  assumes total: "\<forall>a b. le a b \<or> le b a"
    and trans: "\<forall>a b c. le a b \<longrightarrow> le b c \<longrightarrow> le a c"
    and sorted: "sorted_wrt (\<lambda>a b. le (key a) (key b)) xs"
  shows "sorted_wrt (\<lambda>a b. le (key a) (key b)) (insert_by le key x xs)"
  using sorted
proof (induction xs)
  case Nil
  then show ?case by simp
next
  case (Cons y ys)
  show ?case
  proof (cases "le (key x) (key y)")
    case True
    have "le (key x) (key z)" if "z \<in> set ys" for z
      using that Cons.prems True trans by auto
    with True Cons.prems show ?thesis by auto
  next
    case False
    then have "le (key y) (key x)" using total by blast
    with False Cons show ?thesis by (auto simp: set_insert_by)
  qed
qed

lemma sorted_orderBy:
  assumes "\<forall>a b. le a b \<or> le b a" and "\<forall>a b c. le a b \<longrightarrow> le b c \<longrightarrow> le a c"
  shows "sorted_wrt (\<lambda>a b. le (key a) (key b)) (orderBy le key xs)"
  by (induction xs) (auto intro: sorted_insert_by [OF assms])

lemma string_le_total: "string_le a b \<or> string_le b a"
  by (induction a b rule: string_le.induct) auto

lemma string_le_trans: "string_le a b \<Longrightarrow> string_le b c \<Longrightarrow> string_le a c"
proof (induction a b arbitrary: c rule: string_le.induct)
  case (1 ys)
  then show ?case by simp
next
  case (2 x xs)
  then show ?case by simp
next
  case (3 x xs y ys)
  then show ?case by (cases c) auto
qed

lemma filter_empty_list_ex: "(filter P xs = []) = (\<not> list_ex P xs)"
  by (induction xs) auto

text \<open>
  C9. \<open>getVaccines\<close> returns exactly the vaccines whose status is Active (each as often
  as the table holds it), in ascending order of \<open>vaccineType\<close> for the collation \<open>le\<close>
  (any total, transitive order on strings), and the empty list when no vaccine is Active.
\<close>

theorem getVaccines_active_ascending:
  assumes "\<forall>a b. le a b \<or> le b a" and "\<forall>a b c. le a b \<longrightarrow> le b c \<longrightarrow> le a c"
  shows "mset (getVaccines le vs) = mset (filter (\<lambda>v. vaccine_status v = Active) vs)
    \<and> sorted_wrt (\<lambda>a b. le (vaccine_vaccineType a) (vaccine_vaccineType b)) (getVaccines le vs)
    \<and> (\<not> list_ex (\<lambda>v. vaccine_status v = Active) vs \<longrightarrow> getVaccines le vs = [])"
proof -
  have "filter (\<lambda>v. vaccine_status v = Active) vs = []"
    if "\<not> list_ex (\<lambda>v. vaccine_status v = Active) vs"
    using that by (simp add: filter_empty_list_ex)
  then show ?thesis
    using sorted_orderBy [OF assms] by (auto simp: getVaccines_def mset_orderBy)
qed

theorem getVaccines_active_ascending_witness:
  "(mset (getVaccines string_le (vaccines demo_store))
      = mset (filter (\<lambda>v. vaccine_status v = Active) (vaccines demo_store))
    \<and> sorted_wrt (\<lambda>a b. string_le (vaccine_vaccineType a) (vaccine_vaccineType b))
        (getVaccines string_le (vaccines demo_store)))
   \<and> map vaccine_vaccineType (getVaccines string_le (vaccines demo_store))
       = [''AstraZeneca'', ''Pfizer'']"
proof -
  have total: "\<forall>a b. string_le a b \<or> string_le b a"
    using string_le_total by blast
  have trans: "\<forall>a b c. string_le a b \<longrightarrow> string_le b c \<longrightarrow> string_le a c"
    using string_le_trans by blast
  have run: "map vaccine_vaccineType (getVaccines string_le (vaccines demo_store))
       = [''AstraZeneca'', ''Pfizer'']"
    by (simp add: getVaccines_def demo_store_def)
  from getVaccines_active_ascending [OF total trans, of "vaccines demo_store"]
  have "mset (getVaccines string_le (vaccines demo_store))
      = mset (filter (\<lambda>v. vaccine_status v = Active) (vaccines demo_store))
    \<and> sorted_wrt (\<lambda>a b. string_le (vaccine_vaccineType a) (vaccine_vaccineType b))
        (getVaccines string_le (vaccines demo_store))"
    by blast
  then show ?thesis using run by (rule conjI)
qed

section \<open>Filter builder: one clause for each truthy field\<close>

lemma sql_distinct:
  "sql_dni \<noteq> sql_email" "sql_dni \<noteq> sql_completeName" "sql_dni \<noteq> sql_vaccine"
  "sql_dni \<noteq> sql_isVaccinated" "sql_dni \<noteq> sql_vaccinationDate"
  "sql_email \<noteq> sql_completeName" "sql_email \<noteq> sql_vaccine"
  "sql_email \<noteq> sql_isVaccinated" "sql_email \<noteq> sql_vaccinationDate"
  "sql_completeName \<noteq> sql_vaccine" "sql_completeName \<noteq> sql_isVaccinated"
  "sql_completeName \<noteq> sql_vaccinationDate"
  "sql_vaccine \<noteq> sql_isVaccinated" "sql_vaccine \<noteq> sql_vaccinationDate"
  "sql_isVaccinated \<noteq> sql_vaccinationDate"
  by (simp_all add: sql_dni_def sql_email_def sql_completeName_def sql_vaccine_def
      sql_isVaccinated_def sql_vaccinationDate_def)

lemma wheres_andWhere: "wheres (andWhere sql ps qb) = wheres qb @ [(sql, ps)]"
  by (simp add: andWhere_def)

lemma wheres_filterEmployees:
  "wheres (filterEmployees q f) =
     wheres q
     @ (if truthy (f_dni f) then [(sql_dni, [(''dni'', like_pattern (f_dni f))])] else [])
     @ (if truthy (f_email f) then [(sql_email, [(''email'', like_pattern (f_email f))])] else [])
     @ (if truthy (f_completeName f)
        then [(sql_completeName, [(''completeName'', like_pattern (f_completeName f))])] else [])
     @ (if truthy (f_vaccine f) then [(sql_vaccine, [(''vaccine'', like_pattern (f_vaccine f))])] else [])
     @ (if truthy (f_isVaccinated f)
        then [(sql_isVaccinated, [(''isVaccinated'', f_isVaccinated f)])] else [])
     @ (if truthy (f_startDate f) \<and> truthy (f_finishDate f)
        then [(sql_vaccinationDate, [(''startDate'', f_startDate f), (''finishDate'', f_finishDate f)])]
        else [])"
  by (simp add: filterEmployees_def Let_def wheres_andWhere)

lemma appended_eq:
  "appended q f =
     (if truthy (f_dni f) then [(sql_dni, [(''dni'', like_pattern (f_dni f))])] else [])
     @ (if truthy (f_email f) then [(sql_email, [(''email'', like_pattern (f_email f))])] else [])
     @ (if truthy (f_completeName f)
        then [(sql_completeName, [(''completeName'', like_pattern (f_completeName f))])] else [])
     @ (if truthy (f_vaccine f) then [(sql_vaccine, [(''vaccine'', like_pattern (f_vaccine f))])] else [])
     @ (if truthy (f_isVaccinated f)
        then [(sql_isVaccinated, [(''isVaccinated'', f_isVaccinated f)])] else [])
     @ (if truthy (f_startDate f) \<and> truthy (f_finishDate f)
        then [(sql_vaccinationDate, [(''startDate'', f_startDate f), (''finishDate'', f_finishDate f)])]
        else [])"
  unfolding appended_def wheres_filterEmployees by simp

lemma more_filterEmployees:
  "SelectQueryBuilder.more (filterEmployees q f) = SelectQueryBuilder.more q"
  by (simp add: filterEmployees_def Let_def andWhere_def)

lemma filterEmployees_split: "wheres (filterEmployees q f) = wheres q @ appended q f"
  unfolding appended_eq by (rule wheres_filterEmployees)

lemma length_appended:
  "length (appended q f) =
     bool_count (truthy (f_dni f)) + bool_count (truthy (f_email f))
     + bool_count (truthy (f_completeName f)) + bool_count (truthy (f_vaccine f))
     + bool_count (truthy (f_isVaccinated f))
     + bool_count (truthy (f_startDate f) \<and> truthy (f_finishDate f))"
  unfolding appended_eq by (simp add: bool_count_def)

lemma clauses_of_appended:
  "length (clauses_of sql_dni (appended q f)) = bool_count (truthy (f_dni f))"
  "length (clauses_of sql_email (appended q f)) = bool_count (truthy (f_email f))"
  "length (clauses_of sql_completeName (appended q f)) = bool_count (truthy (f_completeName f))"
  "length (clauses_of sql_vaccine (appended q f)) = bool_count (truthy (f_vaccine f))"
  "length (clauses_of sql_isVaccinated (appended q f)) = bool_count (truthy (f_isVaccinated f))"
  "length (clauses_of sql_vaccinationDate (appended q f))
     = bool_count (truthy (f_startDate f) \<and> truthy (f_finishDate f))"
  unfolding appended_eq clauses_of_def
  using sql_distinct by (simp_all add: bool_count_def)

lemma filterEmployees_empty: "filterEmployees q empty_filter = q"
  by (simp add: filterEmployees_def empty_filter_def)

text \<open>
  C1. For every builder and every filter object, \<open>filterEmployees\<close> only appends
  clauses: the clause of each of \<open>dni\<close>, \<open>email\<close>, \<open>completeName\<close>, \<open>vaccine\<close> and
  \<open>isVaccinated\<close> exactly once when the field is truthy and not at all otherwise, and the
  \<open>vaccinationDate\<close> range clause exactly once when \<open>startDate\<close> and \<open>finishDate\<close> are both
  truthy and not at all otherwise; nothing else is appended, and the empty filter object
  leaves the builder as it was.
\<close>

theorem filterEmployees_one_clause_per_truthy_field:
  "wheres (filterEmployees q f) = wheres q @ appended q f
   \<and> SelectQueryBuilder.more (filterEmployees q f) = SelectQueryBuilder.more q
   \<and> length (appended q f) =
       bool_count (truthy (f_dni f)) + bool_count (truthy (f_email f))
       + bool_count (truthy (f_completeName f)) + bool_count (truthy (f_vaccine f))
       + bool_count (truthy (f_isVaccinated f))
       + bool_count (truthy (f_startDate f) \<and> truthy (f_finishDate f))
   \<and> length (clauses_of sql_dni (appended q f)) = bool_count (truthy (f_dni f))
   \<and> length (clauses_of sql_email (appended q f)) = bool_count (truthy (f_email f))
   \<and> length (clauses_of sql_completeName (appended q f))
       = bool_count (truthy (f_completeName f))
   \<and> length (clauses_of sql_vaccine (appended q f)) = bool_count (truthy (f_vaccine f))
   \<and> length (clauses_of sql_isVaccinated (appended q f))
       = bool_count (truthy (f_isVaccinated f))
   \<and> length (clauses_of sql_vaccinationDate (appended q f))
       = bool_count (truthy (f_startDate f) \<and> truthy (f_finishDate f))
   \<and> filterEmployees q empty_filter = q
   \<and> appended q empty_filter = []"
proof -
  have "appended q empty_filter = []"
    by (simp add: appended_def filterEmployees_empty)
  then show ?thesis
    using filterEmployees_split [of q f] more_filterEmployees [of q f] length_appended [of q f]
      clauses_of_appended [of q f] filterEmployees_empty [of q]
    by simp
qed

text \<open>
  A run: \<open>dni\<close> 17 is truthy, \<open>isVaccinated\<close> false is not, and \<open>startDate\<close> stands
  without \<open>finishDate\<close>: one clause is appended, none of them the date range.
\<close>

theorem filterEmployees_one_clause_per_truthy_field_witness:
  "length (appended \<lparr>wheres = [(''employee.status =:status'', [])]\<rparr>
     (empty_filter\<lparr>f_dni := JNum 17, f_isVaccinated := JBool False,
        f_startDate := JStr ''2021-01-01''\<rparr>)) = 1
   \<and> length (clauses_of sql_vaccinationDate
        (appended \<lparr>wheres = [(''employee.status =:status'', [])]\<rparr>
          (empty_filter\<lparr>f_dni := JNum 17, f_isVaccinated := JBool False,
             f_startDate := JStr ''2021-01-01''\<rparr>))) = 0"
  using filterEmployees_one_clause_per_truthy_field
      [of "\<lparr>wheres = [(''employee.status =:status'', [])]\<rparr>"
        "empty_filter\<lparr>f_dni := JNum 17, f_isVaccinated := JBool False,
           f_startDate := JStr ''2021-01-01''\<rparr>"]
  by (simp add: empty_filter_def bool_count_def)

section \<open>Query composer: no narrowing argument, no narrowing clause\<close>

lemma find_map_joined: "find P (map f xs) = map_option f (find (\<lambda>x. P (f x)) xs)"
  by (induction xs) auto

lemma find_as_filter: "find P xs = (case filter P xs of [] \<Rightarrow> None | x # _ \<Rightarrow> Some x)"
  by (induction xs) auto

lemma find_None_list_ex: "(find P xs = None) = (\<not> list_ex P xs)"
  by (induction xs) auto

lemma find_SomeD: "find P xs = Some x \<Longrightarrow> P x \<and> x \<in> set xs"
  by (induction xs) (auto split: if_splits)

lemma joined_simps [simp]:
  "employee_id (joined s e) = er_id e"
  "employee_email (joined s e) = er_email e"
  "employee_status (joined s e) = er_status e"
  "employee_person (joined s e) = join_person s e"
  "employee_user (joined s e) = join_user s e"
  "employee_employeeVaccinations (joined s e) = join_employeeVaccinations s e"
  by (simp_all add: joined_def)

lemma getOne_StatusActive:
  "getOne [StatusActive] s =
     (case filter (\<lambda>e. er_status e = Active) (employees s) of
        [] \<Rightarrow> None
      | e # _ \<Rightarrow> Some (joined s e))"
proof -
  have "getOne [StatusActive] s
      = map_option (joined s) (find (\<lambda>e. er_status e = Active) (employees s))"
    by (simp add: getOne_def find_map_joined)
  also have "\<dots> = (case filter (\<lambda>e. er_status e = Active) (employees s) of
        [] \<Rightarrow> None
      | e # _ \<Rightarrow> Some (joined s e))"
    unfolding find_as_filter [of "\<lambda>e. er_status e = Active"] by (simp split: list.splits)
  finally show ?thesis .
qed

text \<open>
  C10. When every narrowing argument of \<open>getEmployee\<close> is absent or falsy (no dni or
  dni 0, no email or the empty email, no employee id or id 0), the query holds the
  Active-status clause and no other, and the call returns the first Active employee of the
  store with its joined rows; it returns nothing only when the store has no Active
  employee.
\<close>

theorem getEmployee_without_narrowing:
  assumes "dni = None \<or> dni = Some 0"
    and "email = None \<or> email = Some []"
    and "employeeId = None \<or> employeeId = Some 0"
  shows "getEmployee_query dni email employeeId = [StatusActive]
    \<and> getEmployee s dni email employeeId =
        (case filter (\<lambda>e. er_status e = Active) (employees s) of
           [] \<Rightarrow> None
         | e # _ \<Rightarrow> Some (joined s e))"
proof -
  have q: "getEmployee_query dni email employeeId = [StatusActive]"
    using assms by (auto simp: getEmployee_query_def)
  then show ?thesis
    by (simp add: getEmployee_def getOne_StatusActive)
qed

lemma demo_active_employees:
  "filter (\<lambda>e. er_status e = Active) (employees demo_store)
     = [employees demo_store ! 0, employees demo_store ! 2]"
  by (simp add: demo_store_def)

theorem getEmployee_without_narrowing_witness:
  "getEmployee_query (Some 0) (Some []) None = [StatusActive]
   \<and> getEmployee demo_store (Some 0) (Some []) None
       = Some (joined demo_store (employees demo_store ! 0))"
proof -
  have "getEmployee_query (Some 0) (Some []) None = [StatusActive]
    \<and> getEmployee demo_store (Some 0) (Some []) None =
        (case filter (\<lambda>e. er_status e = Active) (employees demo_store) of
           [] \<Rightarrow> None
         | e # _ \<Rightarrow> Some (joined demo_store e))"
    by (rule getEmployee_without_narrowing) simp_all
  then show ?thesis
    unfolding demo_active_employees by simp
qed

section \<open>Projector: no rows give null, never an empty sequence\<close>

lemma myInformation_mapEmployee:
  "myInformation s dni =
     (case getEmployee s (Some dni) None None of
        None \<Rightarrow> Inl TypeError
      | Some employee \<Rightarrow> mapEmployee employee)"
  by (simp add: myInformation_def mapEmployee_def split: option.splits)

lemma join_employeeVaccinations_empty:
  "(join_employeeVaccinations s e = []) = no_active_vaccination s e"
  by (simp add: join_employeeVaccinations_def filter_empty_list_ex no_active_vaccination_def)

lemma join_userRoles_empty:
  "(join_userRoles s u = [])
     = (\<not> list_ex (\<lambda>r. urr_userId r = ur_id u \<and> urr_status r = Active) (userRoles s))"
  by (simp add: join_userRoles_def filter_empty_list_ex)

lemma mapEmployee_person:
  assumes "employee_person a = Some p"
  shows "\<exists>r. mapEmployee a = Inr r
    \<and> e_vaccines r =
        (if employee_employeeVaccinations a = [] then None
         else Some (map (\<lambda>ev.
                \<lparr>v_id = map_option vaccine_id (employeeVaccination_vaccine ev),
                 v_name = map_option vaccine_vaccineType (employeeVaccination_vaccine ev),
                 v_doseNumber = employeeVaccination_doseNumber ev,
                 v_vaccinationDate = employeeVaccination_vaccinationDate ev,
                 v_employeeVaccinationId = employeeVaccination_id ev\<rparr>)
                (employee_employeeVaccinations a)))
    \<and> e_roles r =
        (case employee_user a of
           None \<Rightarrow> None
         | Some u \<Rightarrow>
             if user_userRoles u = [] then None
             else Some (map (\<lambda>ur.
                    \<lparr>r_id = map_option role_id (userRole_role ur),
                     r_name = map_option role_name (userRole_role ur)\<rparr>)
                    (user_userRoles u)))"
  using assms by (simp add: mapEmployee_def split: option.splits)

text \<open>
  \<open>mapEmployees\<close> projects a list element by element, and raises as soon as one
  element has no person loaded.
\<close>

lemma mapEmployees_Inr_iff:
  "(mapEmployees xs = Inr rs) = list_all2 (\<lambda>a r. mapEmployee a = Inr r) xs rs"
proof (induction xs arbitrary: rs)
  case Nil
  then show ?case by auto
next
  case (Cons a xs)
  have tail: "list_all2 (\<lambda>a r. mapEmployee a = Inr r) xs ys = (mapEmployees xs = Inr ys)" for ys
    by (rule Cons.IH [symmetric])
  show ?case
    by (cases rs) (auto simp: tail split: sum.splits)
qed

lemma mapEmployee_without_person:
  "employee_person a = None \<Longrightarrow> mapEmployee a = Inl TypeError"
  by (simp add: mapEmployee_def)

lemma mapEmployee_raises_TypeError: "mapEmployee a = Inl err \<Longrightarrow> err = TypeError"
  by (auto simp: mapEmployee_def split: option.splits)

lemma mapEmployees_without_person:
  "list_ex (\<lambda>a. employee_person a = None) xs \<Longrightarrow> mapEmployees xs = Inl TypeError"
proof (induction xs)
  case Nil
  then show ?case by simp
next
  case (Cons a xs)
  then show ?case
    by (auto simp: mapEmployee_without_person split: sum.splits
        dest: mapEmployee_raises_TypeError)
qed

text \<open>
  Where the person is loaded, the projection returns a record whose \<open>vaccines\<close> is null
  when the aggregate has no employee vaccination and whose \<open>roles\<close> is null when it has
  no user or its user has no user role; neither is ever the empty sequence. For the
  aggregate that the joined read loads for an employee row this means: no Active
  employee-vaccination row gives \<open>vaccines = null\<close>, no Active user-role row of its user
  gives \<open>roles = null\<close>. \<open>myInformation\<close> returns the same record for the employee it
  finds.
\<close>

theorem projection_null_not_empty:
  assumes "employee_person a = Some p"
  shows "\<exists>r. mapEmployee a = Inr r \<and> mapEmployees [a] = Inr [r]
    \<and> (employee_employeeVaccinations a = [] \<longrightarrow> e_vaccines r = None)
    \<and> ((case employee_user a of None \<Rightarrow> True | Some u \<Rightarrow> user_userRoles u = [])
         \<longrightarrow> e_roles r = None)
    \<and> e_vaccines r \<noteq> Some [] \<and> e_roles r \<noteq> Some []
    \<and> (a = joined s row \<and> no_active_vaccination s row \<longrightarrow> e_vaccines r = None)
    \<and> (a = joined s row \<and> no_active_userRole s row \<longrightarrow> e_roles r = None)
    \<and> (getEmployee s (Some dni) None None = Some a \<longrightarrow> myInformation s dni = Inr r)"
proof -
  from mapEmployee_person [OF assms] obtain r where r: "mapEmployee a = Inr r"
    and v: "e_vaccines r =
        (if employee_employeeVaccinations a = [] then None
         else Some (map (\<lambda>ev.
                \<lparr>v_id = map_option vaccine_id (employeeVaccination_vaccine ev),
                 v_name = map_option vaccine_vaccineType (employeeVaccination_vaccine ev),
                 v_doseNumber = employeeVaccination_doseNumber ev,
                 v_vaccinationDate = employeeVaccination_vaccinationDate ev,
                 v_employeeVaccinationId = employeeVaccination_id ev\<rparr>)
                (employee_employeeVaccinations a)))"
    and ro: "e_roles r =
        (case employee_user a of
           None \<Rightarrow> None
         | Some u \<Rightarrow>
             if user_userRoles u = [] then None
             else Some (map (\<lambda>ur.
                    \<lparr>r_id = map_option role_id (userRole_role ur),
                     r_name = map_option role_name (userRole_role ur)\<rparr>)
                    (user_userRoles u)))"
    by blast
  have 1: "mapEmployees [a] = Inr [r]" using r by simp
  have 2: "employee_employeeVaccinations a = [] \<longrightarrow> e_vaccines r = None"
    using v by simp
  have 3: "(case employee_user a of None \<Rightarrow> True | Some u \<Rightarrow> user_userRoles u = [])
         \<longrightarrow> e_roles r = None"
    using ro by (simp split: option.splits)
  have 4: "e_vaccines r \<noteq> Some []" using v by simp
  have 5: "e_roles r \<noteq> Some []" using ro by (simp split: option.splits)
  have 6: "a = joined s row \<and> no_active_vaccination s row \<longrightarrow> e_vaccines r = None"
    using 2 by (auto simp: join_employeeVaccinations_empty)
  have 7: "a = joined s row \<and> no_active_userRole s row \<longrightarrow> e_roles r = None"
    using 3 by (auto simp: no_active_userRole_def join_user_def join_userRoles_empty
        split: option.splits)
  have 8: "getEmployee s (Some dni) None None = Some a \<longrightarrow> myInformation s dni = Inr r"
    using r by (simp add: myInformation_mapEmployee)
  from r 1 2 3 4 5 6 7 8 show ?thesis by blast
qed

lemma demo_ana:
  "getEmployee demo_store (Some 12345678) None None
     = Some (joined demo_store (employees demo_store ! 0))"
  by (simp add: getEmployee_def getEmployee_query_def getOne_def joined_def join_person_def
      demo_store_def)

lemma demo_eva:
  "getEmployee demo_store (Some 55555555) None None
     = Some (joined demo_store (employees demo_store ! 2))"
  by (simp add: getEmployee_def getEmployee_query_def getOne_def joined_def join_person_def
      demo_store_def)

text \<open>
  Two runs: Ana has one employee-vaccination row, soft-deleted, and her \<open>vaccines\<close> is
  null; the only user role of Eva's user is soft-deleted, and her \<open>roles\<close> is null.
\<close>

theorem projection_null_not_empty_witness:
  "(\<exists>r. myInformation demo_store 12345678 = Inr r
       \<and> mapEmployees [joined demo_store (employees demo_store ! 0)] = Inr [r]
       \<and> e_vaccines r = None)
   \<and> (\<exists>r. myInformation demo_store 55555555 = Inr r
       \<and> mapEmployees [joined demo_store (employees demo_store ! 2)] = Inr [r]
       \<and> e_roles r = None)"
proof -
  have p: "employee_person (joined demo_store (employees demo_store ! 0))
      = Some (persons demo_store ! 0)"
    by (simp add: join_person_def demo_store_def)
  have nv: "no_active_vaccination demo_store (employees demo_store ! 0)"
    by (simp add: no_active_vaccination_def demo_store_def)
  from projection_null_not_empty [OF p, of demo_store "employees demo_store ! 0" 12345678]
    nv demo_ana
  have ana: "\<exists>r. myInformation demo_store 12345678 = Inr r
       \<and> mapEmployees [joined demo_store (employees demo_store ! 0)] = Inr [r]
       \<and> e_vaccines r = None"
    by blast
  have q: "employee_person (joined demo_store (employees demo_store ! 2))
      = Some (persons demo_store ! 2)"
    by (simp add: join_person_def demo_store_def)
  have nr: "no_active_userRole demo_store (employees demo_store ! 2)"
    by (simp add: no_active_userRole_def demo_store_def)
  from projection_null_not_empty [OF q, of demo_store "employees demo_store ! 2" 55555555]
    nr demo_eva
  have eva: "\<exists>r. myInformation demo_store 55555555 = Inr r
       \<and> mapEmployees [joined demo_store (employees demo_store ! 2)] = Inr [r]
       \<and> e_roles r = None"
    by blast
  from ana eva show ?thesis by (rule conjI)
qed

text \<open>On a list whose elements all have their person loaded, element by element.\<close>

lemma mapEmployees_with_persons:
  assumes "list_all (\<lambda>a. employee_person a \<noteq> None) xs"
  shows "\<exists>rs. mapEmployees xs = Inr rs
    \<and> list_all2 (\<lambda>a r. mapEmployee a = Inr r
          \<and> (employee_employeeVaccinations a = [] \<longrightarrow> e_vaccines r = None)
          \<and> ((case employee_user a of None \<Rightarrow> True | Some u \<Rightarrow> user_userRoles u = [])
               \<longrightarrow> e_roles r = None)
          \<and> e_vaccines r \<noteq> Some [] \<and> e_roles r \<noteq> Some []) xs rs"
  using assms
proof (induction xs)
  case Nil
  then show ?case by simp
next
  case (Cons a xs)
  then obtain rs where rs: "mapEmployees xs = Inr rs"
    and all: "list_all2 (\<lambda>a r. mapEmployee a = Inr r
          \<and> (employee_employeeVaccinations a = [] \<longrightarrow> e_vaccines r = None)
          \<and> ((case employee_user a of None \<Rightarrow> True | Some u \<Rightarrow> user_userRoles u = [])
               \<longrightarrow> e_roles r = None)
          \<and> e_vaccines r \<noteq> Some [] \<and> e_roles r \<noteq> Some []) xs rs"
    by auto
  from Cons.prems obtain p where p: "employee_person a = Some p" by auto
  from projection_null_not_empty [OF p] obtain r where r: "mapEmployee a = Inr r"
    and facts: "employee_employeeVaccinations a = [] \<longrightarrow> e_vaccines r = None"
      "(case employee_user a of None \<Rightarrow> True | Some u \<Rightarrow> user_userRoles u = [])
         \<longrightarrow> e_roles r = None"
      "e_vaccines r \<noteq> Some []" "e_roles r \<noteq> Some []"
    by blast
  have "mapEmployees (a # xs) = Inr (r # rs)" using r rs by simp
  with r facts all show ?case by auto
qed

lemma demo_person_deleted_first:
  "employees demo_store_person_deleted ! 0 = employees demo_store ! 0"
  by (simp add: demo_store_person_deleted_def)


section \<open>Creation: the rejections and what a successful call stores and returns\<close>

lemma getPerson_finds: "(getPerson s dni = None) = (\<not> person_with_dni s dni)"
  by (simp add: getPerson_def person_with_dni_def find_None_list_ex)

lemma getEmployee_email_finds:
  "(getEmployee s None (Some email) None = None) = (\<not> email_lookup_finds s email)"
  by (cases "email = []")
    (auto simp: getEmployee_def getEmployee_query_def getOne_def find_None_list_ex
      email_lookup_finds_def list_ex_iff)

lemma email_lookup_finds_active: "active_employee_with_email s email \<Longrightarrow> email_lookup_finds s email"
  by (auto simp: active_employee_with_email_def email_lookup_finds_def list_ex_iff)

lemma email_lookup_finds_nonempty:
  "email \<noteq> [] \<Longrightarrow> email_lookup_finds s email = active_employee_with_email s email"
  by (auto simp: active_employee_with_email_def email_lookup_finds_def list_ex_iff)

lemma email_lookup_finds_empty:
  "email_lookup_finds s [] = list_ex (\<lambda>e. er_status e = Active) (employees s)"
  by (simp add: email_lookup_finds_def)

lemma createEmploye_dni_exist:
  "getPerson s (ce_dni dto) \<noteq> None \<Longrightarrow>
   createEmploye v now dto s = (Inl (EmployeeException ''dni-exist'' BAD_REQUEST), s)"
  by (simp add: createEmploye_def Let_def)

lemma createEmploye_email_exist:
  "getPerson s (ce_dni dto) = None \<Longrightarrow> getEmployee s None (Some (ce_email dto)) None \<noteq> None \<Longrightarrow>
   createEmploye v now dto s = (Inl (EmployeeException ''email-exist'' BAD_REQUEST), s)"
  by (simp add: createEmploye_def Let_def)

lemma createEmploye_invalid_dni:
  "getPerson s (ce_dni dto) = None \<Longrightarrow> getEmployee s None (Some (ce_email dto)) None = None \<Longrightarrow>
   \<not> v (String_num (ce_dni dto)) \<Longrightarrow>
   createEmploye v now dto s = (Inl (EmployeeException ''invalid-dni'' BAD_REQUEST), s)"
  by (simp add: createEmploye_def Let_def)

lemma createEmploye_created:
  "getPerson s (ce_dni dto) = None \<Longrightarrow> getEmployee s None (Some (ce_email dto)) None = None \<Longrightarrow>
   v (String_num (ce_dni dto)) \<Longrightarrow>
   createEmploye v now dto s =
     (Inr \<lparr>cr_id = fresh_id (map er_id (employees s)),
           cr_dni = ce_dni dto,
           cr_firstName = Some (ce_firstName dto),
           cr_lastName = Some (ce_lastName dto),
           cr_birthDate = ce_birthDate dto,
           cr_homeAddress = ce_homeAddress dto,
           cr_mobilePhone = ce_mobilePhone dto,
           cr_status = ''Active'',
           cr_username = Some (ce_email dto),
           cr_password = Some (String_num (ce_dni dto)),
           cr_role = map_option role_name (getRole s (ce_role dto))\<rparr>,
      s\<lparr>persons := persons s @
           [\<lparr>person_id = fresh_id (map person_id (persons s)), person_dni = ce_dni dto,
             person_firstName = ce_firstName dto, person_lastName = ce_lastName dto,
             person_status = Active, person_createdDate = now\<rparr>],
         employees := employees s @
           [\<lparr>er_id = fresh_id (map er_id (employees s)), er_email = ce_email dto,
             er_birthDate = ce_birthDate dto, er_homeAddress = ce_homeAddress dto,
             er_mobilePhone = ce_mobilePhone dto,
             er_vaccinationStatus = ce_vaccinationStatus dto, er_status = Active,
             er_createdDate = now, er_personId = fresh_id (map person_id (persons s))\<rparr>],
         users := users s @
           [\<lparr>ur_id = fresh_id (map ur_id (users s)), ur_username = ce_email dto,
             ur_password = String_num (ce_dni dto), ur_status = Active,
             ur_createdDate = now, ur_employeeId = fresh_id (map er_id (employees s))\<rparr>],
         userRoles := userRoles s @
           [\<lparr>urr_id = fresh_id (map urr_id (userRoles s)), urr_status = Active,
             urr_createdDate = now, urr_userId = fresh_id (map ur_id (users s)),
             urr_roleId = map_option role_id (getRole s (ce_role dto))\<rparr>]\<rparr>)"
  by (simp add: createEmploye_def Let_def createPerson_def employeeRepository_save_def
      createUser_def createUserRole_def mapCreateEmployee_def)

text \<open>
  C3, as amended. \<open>createEmploye\<close> rejects with \<open>dni-exist\<close> when a person with the
  dto's dni is stored. Otherwise it rejects with \<open>email-exist\<close> when the lookup by email
  finds an employee: when an Active employee with the dto's email is stored or, the dto's
  email being empty (the lookup then has no clause on the email), when any Active employee
  is stored; a soft-deleted employee with the dto's email is not found. Otherwise it
  rejects with \<open>invalid-dni\<close> when the format validator rejects the dni. Whenever the call
  raises, the store is left as it was: no person, employee, user or user-role row is
  created.
\<close>

theorem createEmploye_rejections:
  "(person_with_dni s (ce_dni dto) \<longrightarrow>
      createEmploye v now dto s = (Inl (EmployeeException ''dni-exist'' BAD_REQUEST), s))
   \<and> (\<not> person_with_dni s (ce_dni dto) \<and> email_lookup_finds s (ce_email dto) \<longrightarrow>
      createEmploye v now dto s = (Inl (EmployeeException ''email-exist'' BAD_REQUEST), s))
   \<and> (\<not> person_with_dni s (ce_dni dto) \<and> \<not> email_lookup_finds s (ce_email dto)
        \<and> \<not> v (String_num (ce_dni dto)) \<longrightarrow>
      createEmploye v now dto s = (Inl (EmployeeException ''invalid-dni'' BAD_REQUEST), s))
   \<and> (active_employee_with_email s (ce_email dto) \<longrightarrow> email_lookup_finds s (ce_email dto))
   \<and> (ce_email dto \<noteq> [] \<longrightarrow>
        email_lookup_finds s (ce_email dto) = active_employee_with_email s (ce_email dto))
   \<and> (ce_email dto = [] \<longrightarrow>
        email_lookup_finds s (ce_email dto) = list_ex (\<lambda>e. er_status e = Active) (employees s))
   \<and> (\<forall>err. fst (createEmploye v now dto s) = Inl err \<longrightarrow> snd (createEmploye v now dto s) = s)"
proof -
  have 1: "person_with_dni s (ce_dni dto) \<longrightarrow>
      createEmploye v now dto s = (Inl (EmployeeException ''dni-exist'' BAD_REQUEST), s)"
    using createEmploye_dni_exist [of s dto v now] by (auto simp: getPerson_finds)
  have 2: "\<not> person_with_dni s (ce_dni dto) \<and> email_lookup_finds s (ce_email dto) \<longrightarrow>
      createEmploye v now dto s = (Inl (EmployeeException ''email-exist'' BAD_REQUEST), s)"
    using createEmploye_email_exist [of s dto v now]
    by (auto simp: getPerson_finds getEmployee_email_finds)
  have 3: "\<not> person_with_dni s (ce_dni dto) \<and> \<not> email_lookup_finds s (ce_email dto)
        \<and> \<not> v (String_num (ce_dni dto)) \<longrightarrow>
      createEmploye v now dto s = (Inl (EmployeeException ''invalid-dni'' BAD_REQUEST), s)"
    using createEmploye_invalid_dni [of s dto v now]
    by (auto simp: getPerson_finds getEmployee_email_finds)
  have 4: "snd (createEmploye v now dto s) = s" if "fst (createEmploye v now dto s) = Inl err" for err
  proof (cases "getPerson s (ce_dni dto) = None")
    case False
    then show ?thesis by (simp add: createEmploye_dni_exist)
  next
    case np: True
    show ?thesis
    proof (cases "getEmployee s None (Some (ce_email dto)) None = None")
      case False
      with np show ?thesis by (simp add: createEmploye_email_exist)
    next
      case ne: True
      show ?thesis
      proof (cases "v (String_num (ce_dni dto))")
        case False
        with np ne show ?thesis by (simp add: createEmploye_invalid_dni)
      next
        case True
        with np ne that show ?thesis by (simp add: createEmploye_created)
      qed
    qed
  qed
  have 5: "active_employee_with_email s (ce_email dto) \<longrightarrow> email_lookup_finds s (ce_email dto)"
    using email_lookup_finds_active by blast
  have 6: "ce_email dto \<noteq> [] \<longrightarrow>
        email_lookup_finds s (ce_email dto) = active_employee_with_email s (ce_email dto)"
    using email_lookup_finds_nonempty by blast
  have 7: "ce_email dto = [] \<longrightarrow>
        email_lookup_finds s (ce_email dto) = list_ex (\<lambda>e. er_status e = Active) (employees s)"
    using email_lookup_finds_empty by auto
  from 1 2 3 4 5 6 7 show ?thesis by blast
qed

text \<open>
  Four runs on the demo store: Ana's dni is taken; Ana's email is taken; with the empty
  email the lookup finds the first Active employee; dni 7 fails the validator.
\<close>

theorem createEmploye_rejections_witness:
  "createEmploye demo_validateID 200 (demo_create\<lparr>ce_dni := 12345678\<rparr>) demo_store
     = (Inl (EmployeeException ''dni-exist'' BAD_REQUEST), demo_store)
   \<and> createEmploye demo_validateID 200 (demo_create\<lparr>ce_email := ''ana@x.com''\<rparr>) demo_store
     = (Inl (EmployeeException ''email-exist'' BAD_REQUEST), demo_store)
   \<and> createEmploye demo_validateID 200 (demo_create\<lparr>ce_email := []\<rparr>) demo_store
     = (Inl (EmployeeException ''email-exist'' BAD_REQUEST), demo_store)
   \<and> createEmploye demo_validateID 200 (demo_create\<lparr>ce_dni := 7\<rparr>) demo_store
     = (Inl (EmployeeException ''invalid-dni'' BAD_REQUEST), demo_store)"
proof -
  have a: "person_with_dni demo_store (ce_dni (demo_create\<lparr>ce_dni := 12345678\<rparr>))"
    by (simp add: person_with_dni_def demo_store_def)
  have b: "\<not> person_with_dni demo_store (ce_dni (demo_create\<lparr>ce_email := ''ana@x.com''\<rparr>))
      \<and> email_lookup_finds demo_store (ce_email (demo_create\<lparr>ce_email := ''ana@x.com''\<rparr>))"
    by (simp add: person_with_dni_def email_lookup_finds_def demo_store_def demo_create_def)
  have b': "\<not> person_with_dni demo_store (ce_dni (demo_create\<lparr>ce_email := []\<rparr>))
      \<and> email_lookup_finds demo_store (ce_email (demo_create\<lparr>ce_email := []\<rparr>))"
    by (simp add: person_with_dni_def email_lookup_finds_def demo_store_def demo_create_def)
  have c: "\<not> person_with_dni demo_store (ce_dni (demo_create\<lparr>ce_dni := 7\<rparr>))
      \<and> \<not> email_lookup_finds demo_store (ce_email (demo_create\<lparr>ce_dni := 7\<rparr>))
      \<and> \<not> demo_validateID (String_num (ce_dni (demo_create\<lparr>ce_dni := 7\<rparr>)))"
    by (simp add: person_with_dni_def email_lookup_finds_def demo_store_def
        demo_create_def demo_validateID_def String_num_def string_of_nat.simps digit_char_def)
  note t = createEmploye_rejections [where v = demo_validateID and now = 200 and s = demo_store]
  have 1: "createEmploye demo_validateID 200 (demo_create\<lparr>ce_dni := 12345678\<rparr>) demo_store
     = (Inl (EmployeeException ''dni-exist'' BAD_REQUEST), demo_store)"
    by (rule t [THEN conjunct1, THEN mp, OF a])
  have 2: "createEmploye demo_validateID 200 (demo_create\<lparr>ce_email := ''ana@x.com''\<rparr>) demo_store
     = (Inl (EmployeeException ''email-exist'' BAD_REQUEST), demo_store)"
    by (rule t [THEN conjunct2, THEN conjunct1, THEN mp, OF b])
  have 3: "createEmploye demo_validateID 200 (demo_create\<lparr>ce_email := []\<rparr>) demo_store
     = (Inl (EmployeeException ''email-exist'' BAD_REQUEST), demo_store)"
    by (rule t [THEN conjunct2, THEN conjunct1, THEN mp, OF b'])
  have 4: "createEmploye demo_validateID 200 (demo_create\<lparr>ce_dni := 7\<rparr>) demo_store
     = (Inl (EmployeeException ''invalid-dni'' BAD_REQUEST), demo_store)"
    by (rule t [THEN conjunct2, THEN conjunct2, THEN conjunct1, THEN mp, OF c])
  from 1 2 3 4 show ?thesis by (intro conjI)
qed

text \<open>
  The claim as stated (C3) fails in two ways. It asks for \<open>email-exist\<close> whenever an
  employee with the dto's email exists: Luis's employee row holds \<open>luis@x.com\<close> and is
  soft-deleted, the lookup has the Active scope, so the call is not rejected and stores a
  second employee row with that email. And it asks for \<open>invalid-dni\<close> when no person has
  the dni, no employee has the email and the validator rejects the dni: with dni 7 and the
  empty email all three hold, yet the lookup, having no clause on the empty email, finds
  the first Active employee and the call is rejected with \<open>email-exist\<close>.
\<close>

theorem createEmploye_inactive_email_counterexample:
  "(list_ex (\<lambda>e. er_email e = ce_email (demo_create\<lparr>ce_email := ''luis@x.com''\<rparr>))
      (employees demo_store)
    \<and> fst (createEmploye demo_validateID 200 (demo_create\<lparr>ce_email := ''luis@x.com''\<rparr>)
         demo_store)
        \<noteq> Inl (EmployeeException ''email-exist'' BAD_REQUEST)
    \<and> map er_email (employees (snd (createEmploye demo_validateID 200
         (demo_create\<lparr>ce_email := ''luis@x.com''\<rparr>) demo_store)))
        = [''ana@x.com'', ''luis@x.com'', ''eva@x.com'', ''luis@x.com''])
   \<and> (\<not> list_ex (\<lambda>p. person_dni p = ce_dni (demo_create\<lparr>ce_dni := 7, ce_email := []\<rparr>))
          (persons demo_store)
    \<and> \<not> list_ex (\<lambda>e. er_email e = ce_email (demo_create\<lparr>ce_dni := 7, ce_email := []\<rparr>))
          (employees demo_store)
    \<and> \<not> demo_validateID (String_num (ce_dni (demo_create\<lparr>ce_dni := 7, ce_email := []\<rparr>)))
    \<and> createEmploye demo_validateID 200 (demo_create\<lparr>ce_dni := 7, ce_email := []\<rparr>) demo_store
        = (Inl (EmployeeException ''email-exist'' BAD_REQUEST), demo_store))"
proof -
  have "getPerson demo_store (ce_dni (demo_create\<lparr>ce_email := ''luis@x.com''\<rparr>)) = None"
    "getEmployee demo_store None (Some (ce_email (demo_create\<lparr>ce_email := ''luis@x.com''\<rparr>))) None = None"
    "demo_validateID (String_num (ce_dni (demo_create\<lparr>ce_email := ''luis@x.com''\<rparr>)))"
    by (simp_all add: getPerson_def getEmployee_def getEmployee_query_def getOne_def joined_def
      demo_store_def demo_create_def demo_validateID_def String_num_def string_of_nat.simps
      digit_char_def)
  from createEmploye_created [of demo_store "demo_create\<lparr>ce_email := ''luis@x.com''\<rparr>"
      demo_validateID 200, OF this]
  have first: "list_ex (\<lambda>e. er_email e = ce_email (demo_create\<lparr>ce_email := ''luis@x.com''\<rparr>))
      (employees demo_store)
    \<and> fst (createEmploye demo_validateID 200 (demo_create\<lparr>ce_email := ''luis@x.com''\<rparr>)
         demo_store)
        \<noteq> Inl (EmployeeException ''email-exist'' BAD_REQUEST)
    \<and> map er_email (employees (snd (createEmploye demo_validateID 200
         (demo_create\<lparr>ce_email := ''luis@x.com''\<rparr>) demo_store)))
        = [''ana@x.com'', ''luis@x.com'', ''eva@x.com'', ''luis@x.com'']"
    by (simp add: demo_store_def demo_create_def)
  have none: "\<not> list_ex (\<lambda>p. person_dni p = ce_dni (demo_create\<lparr>ce_dni := 7, ce_email := []\<rparr>))
          (persons demo_store)"
    "\<not> list_ex (\<lambda>e. er_email e = ce_email (demo_create\<lparr>ce_dni := 7, ce_email := []\<rparr>))
          (employees demo_store)"
    "\<not> demo_validateID (String_num (ce_dni (demo_create\<lparr>ce_dni := 7, ce_email := []\<rparr>)))"
    by (simp_all add: demo_store_def demo_create_def demo_validateID_def String_num_def
        string_of_nat.simps digit_char_def)
  have np: "getPerson demo_store (ce_dni (demo_create\<lparr>ce_dni := 7, ce_email := []\<rparr>)) = None"
    by (simp add: getPerson_def demo_store_def)
  have found: "getEmployee demo_store None
      (Some (ce_email (demo_create\<lparr>ce_dni := 7, ce_email := []\<rparr>))) None \<noteq> None"
    by (simp add: getEmployee_def getEmployee_query_def getOne_def joined_def demo_store_def)
  have second: "createEmploye demo_validateID 200 (demo_create\<lparr>ce_dni := 7, ce_email := []\<rparr>)
      demo_store = (Inl (EmployeeException ''email-exist'' BAD_REQUEST), demo_store)"
    by (rule createEmploye_email_exist [OF np found])
  note f1 = first [THEN conjunct1]
    and f2 = first [THEN conjunct2, THEN conjunct1]
    and f3 = first [THEN conjunct2, THEN conjunct2]
  from f1 f2 f3 none second show ?thesis by (intro conjI)
qed

text \<open>
  C4. On every successful call of \<open>createEmploye\<close> the user row it stores has the dto's
  email as username and the decimal text of the dto's dni as password, and the returned
  record carries the new employee's id and scalar fields, that username, that password
  and the name of the role that the dto's role argument resolves to (null when it
  resolves to none).
\<close>

theorem createEmploye_success:
  assumes "createEmploye v now dto s = (Inr r, s')"
  shows "users s' = users s @
           [\<lparr>ur_id = fresh_id (map ur_id (users s)), ur_username = ce_email dto,
             ur_password = String_num (ce_dni dto), ur_status = Active,
             ur_createdDate = now, ur_employeeId = cr_id r\<rparr>]
    \<and> cr_username r = Some (ce_email dto)
    \<and> cr_password r = Some (String_num (ce_dni dto))
    \<and> cr_role r = map_option role_name (getRole s (ce_role dto))
    \<and> (getRole s (ce_role dto) \<noteq> None \<longrightarrow> cr_role r = Some (ce_role dto))
    \<and> cr_id r = fresh_id (map er_id (employees s))
    \<and> cr_dni r = ce_dni dto
    \<and> cr_firstName r = Some (ce_firstName dto)
    \<and> cr_lastName r = Some (ce_lastName dto)
    \<and> cr_birthDate r = ce_birthDate dto
    \<and> cr_homeAddress r = ce_homeAddress dto
    \<and> cr_mobilePhone r = ce_mobilePhone dto
    \<and> cr_status r = ''Active''"
proof -
  have np: "getPerson s (ce_dni dto) = None"
    using assms createEmploye_dni_exist [of s dto v now] by force
  have ne: "getEmployee s None (Some (ce_email dto)) None = None"
    using assms np createEmploye_email_exist [of s dto v now] by force
  have ok: "v (String_num (ce_dni dto))"
    using assms np ne createEmploye_invalid_dni [of s dto v now] by force
  have role: "map_option role_name (getRole s (ce_role dto)) = Some (ce_role dto)"
    if "getRole s (ce_role dto) \<noteq> None"
    using that by (auto simp: getRole_def dest: find_SomeD)
  from assms createEmploye_created [of s dto v now, OF np ne ok] role show ?thesis
    by auto
qed

lemma demo_create_not_rejected:
  "getPerson demo_store (ce_dni demo_create) = None"
  "getEmployee demo_store None (Some (ce_email demo_create)) None = None"
  "demo_validateID (String_num (ce_dni demo_create))"
  by (simp_all add: getPerson_def getEmployee_def getEmployee_query_def getOne_def joined_def
      demo_store_def demo_create_def demo_validateID_def String_num_def string_of_nat.simps
      digit_char_def)

theorem createEmploye_success_witness:
  "\<exists>r s'. createEmploye demo_validateID 200 demo_create demo_store = (Inr r, s')
     \<and> cr_username r = Some ''rosa@x.com'' \<and> cr_password r = Some ''11223344''
     \<and> cr_role r = Some ''NURSE''
     \<and> map ur_password (users s') = [''old'', ''old'', ''11223344'']"
proof -
  obtain r s' where run: "createEmploye demo_validateID 200 demo_create demo_store = (Inr r, s')"
    using createEmploye_created [of demo_store demo_create demo_validateID 200,
        OF demo_create_not_rejected]
    by blast
  have pw: "String_num (ce_dni demo_create) = ''11223344''"
    by (simp add: demo_create_def String_num_def string_of_nat.simps digit_char_def)
  have role: "getRole demo_store (ce_role demo_create) \<noteq> None"
    by (simp add: getRole_def demo_store_def demo_create_def)
  note t = createEmploye_success [OF run]
  have user: "cr_username r = Some ''rosa@x.com''"
    using t by (simp add: demo_create_def)
  have pass: "cr_password r = Some ''11223344''"
    using t pw by simp
  have nurse: "cr_role r = Some ''NURSE''"
    using t role by (auto simp: demo_create_def)
  have stored: "map ur_password (users s') = [''old'', ''old'', ''11223344'']"
    using t pw by (simp add: demo_store_def)
  show ?thesis
    by (rule exI [of _ r], rule exI [of _ s']) (simp add: run user pass nurse stored)
qed

section \<open>Update and soft delete\<close>

lemma getEmployee_dni_query:
  "dni \<noteq> 0 \<Longrightarrow> getEmployee_query (Some dni) None None = [StatusActive, PersonDniEq dni]"
  by (simp add: getEmployee_query_def)

lemma getEmployee_dni_None:
  "dni \<noteq> 0 \<Longrightarrow>
   (getEmployee s (Some dni) None None = None) = (\<not> active_employee_with_dni s dni)"
  by (simp add: getEmployee_def getEmployee_dni_query getOne_def find_None_list_ex
      active_employee_with_dni_def list_ex_iff)

lemma getEmployee_dni_found:
  assumes "getEmployee s (Some dni) None None = Some fe" and "dni \<noteq> 0"
  shows "employee_status fe = Active
    \<and> (\<exists>p. employee_person fe = Some p \<and> person_dni p = dni)
    \<and> (\<exists>row. row \<in> set (employees s) \<and> fe = joined s row)"
proof -
  from assms have "find (\<lambda>e. list_all (\<lambda>c. holds c e) [StatusActive, PersonDniEq dni])
      (map (joined s) (employees s)) = Some fe"
    by (simp add: getEmployee_def getEmployee_dni_query getOne_def)
  from find_SomeD [OF this] show ?thesis
    by (auto split: option.splits)
qed

lemma employeeRepository_update_status:
  "employeeRepository_update employeeId
     \<lparr>ep_birthDate = None, ep_email = None, ep_homeAddress = None, ep_mobilePhone = None,
      ep_vaccinationStatus = None, ep_status = Some Inactive\<rparr> s
   = s\<lparr>employees := soft_deleted employeeId (employees s)\<rparr>"
  by (simp add: employeeRepository_update_def soft_deleted_def set_field_def)

lemma soft_deleted_up_to_status:
  "map (\<lambda>e. e\<lparr>er_status := Active\<rparr>) (soft_deleted i rows)
     = map (\<lambda>e. e\<lparr>er_status := Active\<rparr>) rows"
  "map er_status (soft_deleted i rows)
     = map (\<lambda>e. if er_id e = i then Inactive else er_status e) rows"
  by (simp_all add: soft_deleted_def)

text \<open>
  C5. For every Active employee that \<open>getEmployee\<close> locates by a dni,
  \<open>updateEmployee\<close> with type DELETE and role ADMINISTRATOR returns the confirmation
  record with the employee's id, name, dni and email as they were, and leaves the store
  with the employee's status set to Inactive and nothing else changed: every employee
  row keeps all its other fields, rows with another id keep their status, and the person,
  user and user-role tables are as before.
\<close>

theorem updateEmployee_delete_by_administrator:
  assumes "getEmployee s (Some dni) None None = Some fe" and "dni \<noteq> 0"
  shows "\<exists>p. employee_person fe = Some p \<and> person_dni p = dni \<and> employee_status fe = Active
    \<and> updateEmployee v h dni (Some User_ADMINISTRATOR) (Some Type_DELETE) dto s =
        (Inr (Deleted
           \<lparr>d_message = ''The employee has been deleted successfully'',
            d_id = employee_id fe,
            d_status = ''Inactive'',
            d_employeeName = person_firstName p @ '' '' @ person_lastName p,
            d_dni = dni,
            d_email = employee_email fe\<rparr>),
         s\<lparr>employees := soft_deleted (employee_id fe) (employees s)\<rparr>)
    \<and> map er_status (soft_deleted (employee_id fe) (employees s))
        = map (\<lambda>e. if er_id e = employee_id fe then Inactive else er_status e) (employees s)
    \<and> map (\<lambda>e. e\<lparr>er_status := Active\<rparr>) (soft_deleted (employee_id fe) (employees s))
        = map (\<lambda>e. e\<lparr>er_status := Active\<rparr>) (employees s)
    \<and> persons (snd (updateEmployee v h dni (Some User_ADMINISTRATOR) (Some Type_DELETE) dto s))
        = persons s
    \<and> users (snd (updateEmployee v h dni (Some User_ADMINISTRATOR) (Some Type_DELETE) dto s))
        = users s
    \<and> userRoles (snd (updateEmployee v h dni (Some User_ADMINISTRATOR) (Some Type_DELETE) dto s))
        = userRoles s"
proof -
  from getEmployee_dni_found [OF assms] obtain p
    where p: "employee_person fe = Some p" "person_dni p = dni" and a: "employee_status fe = Active"
    by blast
  have run: "updateEmployee v h dni (Some User_ADMINISTRATOR) (Some Type_DELETE) dto s =
        (Inr (Deleted
           \<lparr>d_message = ''The employee has been deleted successfully'',
            d_id = employee_id fe,
            d_status = ''Inactive'',
            d_employeeName = person_firstName p @ '' '' @ person_lastName p,
            d_dni = dni,
            d_email = employee_email fe\<rparr>),
         s\<lparr>employees := soft_deleted (employee_id fe) (employees s)\<rparr>)"
    using assms p
    by (simp add: updateEmployee_def deleteBranch_def employeeRepository_update_status)
  have frame: "persons (snd (updateEmployee v h dni (Some User_ADMINISTRATOR) (Some Type_DELETE) dto s))
        = persons s"
    "users (snd (updateEmployee v h dni (Some User_ADMINISTRATOR) (Some Type_DELETE) dto s))
        = users s"
    "userRoles (snd (updateEmployee v h dni (Some User_ADMINISTRATOR) (Some Type_DELETE) dto s))
        = userRoles s"
    by (simp_all add: run)
  from p a run frame soft_deleted_up_to_status [of "employee_id fe" "employees s"]
  show ?thesis by blast
qed

theorem updateEmployee_delete_by_administrator_witness:
  "fst (updateEmployee demo_validateID demo_digest 12345678 (Some ''ADMINISTRATOR'')
          (Some ''DELETE'') None demo_store)
     = Inr (Deleted
           \<lparr>d_message = ''The employee has been deleted successfully'',
            d_id = 1, d_status = ''Inactive'', d_employeeName = ''Ana Diaz'',
            d_dni = 12345678, d_email = ''ana@x.com''\<rparr>)
   \<and> snd (updateEmployee demo_validateID demo_digest 12345678 (Some ''ADMINISTRATOR'')
          (Some ''DELETE'') None demo_store)
     = demo_store\<lparr>employees := soft_deleted 1 (employees demo_store)\<rparr>
   \<and> map er_status (soft_deleted 1 (employees demo_store)) = [Inactive, Inactive, Active]"
proof -
  have dni: "(12345678 :: int) \<noteq> 0" by simp
  from updateEmployee_delete_by_administrator [OF demo_ana dni, of demo_validateID demo_digest None]
  obtain p where p: "employee_person (joined demo_store (employees demo_store ! 0)) = Some p"
    and run: "updateEmployee demo_validateID demo_digest 12345678 (Some User_ADMINISTRATOR)
        (Some Type_DELETE) None demo_store =
        (Inr (Deleted
           \<lparr>d_message = ''The employee has been deleted successfully'',
            d_id = employee_id (joined demo_store (employees demo_store ! 0)),
            d_status = ''Inactive'',
            d_employeeName = person_firstName p @ '' '' @ person_lastName p,
            d_dni = 12345678,
            d_email = employee_email (joined demo_store (employees demo_store ! 0))\<rparr>),
         demo_store\<lparr>employees := soft_deleted
            (employee_id (joined demo_store (employees demo_store ! 0))) (employees demo_store)\<rparr>)"
    by blast
  have "p = persons demo_store ! 0"
    using p by (simp add: join_person_def demo_store_def)
  then have names: "person_firstName p = ''Ana''" "person_lastName p = ''Diaz''"
    by (simp_all add: demo_store_def)
  have row: "er_id (employees demo_store ! 0) = 1" "er_email (employees demo_store ! 0) = ''ana@x.com''"
    by (simp_all add: demo_store_def)
  have st: "map er_status (soft_deleted 1 (employees demo_store)) = [Inactive, Inactive, Active]"
    by (simp add: soft_deleted_def demo_store_def)
  show ?thesis
    using run names row st
    by (simp add: User_ADMINISTRATOR_def Type_DELETE_def)
qed

text \<open>
  C8. \<open>updateEmployee\<close> raises \<open>employee-not-found\<close> and leaves the store as it was
  whenever no Active employee matches the dni, and also whenever the type is not UPDATE
  and the call is not a DELETE by ADMINISTRATOR; in particular a DELETE by another role
  on an existing employee.
\<close>

theorem updateEmployee_not_found:
  assumes "\<not> active_employee_with_dni s dni
     \<or> (type \<noteq> Some Type_UPDATE \<and> \<not> (type = Some Type_DELETE \<and> role = Some User_ADMINISTRATOR))"
  shows "updateEmployee v h dni role type dto s
     = (Inl (EmployeeException ''employee-not-found'' BAD_REQUEST), s)"
proof (cases "dni = 0")
  case True
  then show ?thesis
    by (simp add: updateEmployee_def split: option.splits)
next
  case False
  show ?thesis
  proof (cases "getEmployee s (Some dni) None None")
    case None
    then show ?thesis by (simp add: updateEmployee_def)
  next
    case (Some fe)
    with False have "active_employee_with_dni s dni"
      using getEmployee_dni_None [of dni s] by simp
    with assms have "type \<noteq> Some Type_UPDATE"
      and "\<not> (type = Some Type_DELETE \<and> role = Some User_ADMINISTRATOR)"
      by blast+
    with Some show ?thesis
      by (auto simp: updateEmployee_def)
  qed
qed

theorem updateEmployee_not_found_witness:
  "updateEmployee demo_validateID demo_digest 99999999 None (Some ''UPDATE'') (Some demo_update)
      demo_store
     = (Inl (EmployeeException ''employee-not-found'' BAD_REQUEST), demo_store)
   \<and> updateEmployee demo_validateID demo_digest 12345678 (Some ''NURSE'') (Some ''DELETE'') None
      demo_store
     = (Inl (EmployeeException ''employee-not-found'' BAD_REQUEST), demo_store)
   \<and> active_employee_with_dni demo_store 12345678"
proof -
  have a: "\<not> active_employee_with_dni demo_store 99999999
     \<or> (Some ''UPDATE'' \<noteq> Some Type_UPDATE
         \<and> \<not> (Some ''UPDATE'' = Some Type_DELETE \<and> None = Some User_ADMINISTRATOR))"
    by (simp add: active_employee_with_dni_def join_person_def demo_store_def)
  have b: "\<not> active_employee_with_dni demo_store 12345678
     \<or> (Some ''DELETE'' \<noteq> Some Type_UPDATE
         \<and> \<not> (Some ''DELETE'' = Some Type_DELETE \<and> Some ''NURSE'' = Some User_ADMINISTRATOR))"
    by (simp add: Type_UPDATE_def Type_DELETE_def User_ADMINISTRATOR_def)
  have c: "active_employee_with_dni demo_store 12345678"
    by (simp add: active_employee_with_dni_def join_person_def demo_store_def)
  from updateEmployee_not_found [OF a, of demo_validateID demo_digest "Some demo_update"]
    updateEmployee_not_found [OF b, of demo_validateID demo_digest None] c
  show ?thesis by (intro conjI)
qed

subsection \<open>The update branch and the password\<close>

text \<open>
  Whatever the dto's password is, as soon as it is truthy the call hands the unset
  \<open>user.password\<close> to \<open>bcrypt.hash\<close> and raises; the user row is not written. Without
  a password the call completes, an invalid dni is dropped and the names are written.
\<close>

lemma updateBranch_with_password:
  assumes "truthy_string (ue_password dto)"
  shows "fst (updateBranch v h fe dto s) = Inl BcryptError
    \<and> users (snd (updateBranch v h fe dto s)) = users s"
  using assms
  by (simp add: updateBranch_def Let_def bcrypt_hash_def updatePerson_def
      employeeRepository_update_def)

lemma updateEmployee_update_found:
  assumes "getEmployee s (Some dni) None None = Some fe" and "dni \<noteq> 0"
  shows "updateEmployee v h dni role (Some Type_UPDATE) (Some dto) s = updateBranch v h fe dto s"
  using assms by (simp add: updateEmployee_def Type_UPDATE_def Type_DELETE_def)

lemma updateEmployee_with_password:
  assumes "getEmployee s (Some dni) None None = Some fe" and "dni \<noteq> 0"
    and "truthy_string (ue_password dto)"
  shows "fst (updateEmployee v h dni role (Some Type_UPDATE) (Some dto) s) = Inl BcryptError
    \<and> users (snd (updateEmployee v h dni role (Some Type_UPDATE) (Some dto) s)) = users s"
  using updateBranch_with_password [OF assms(3)]
  by (simp add: updateEmployee_update_found [OF assms(1,2)])

text \<open>
  For a dto that sets every employee and person field and an email, on an employee with
  an Active user: without a password the call completes.
\<close>

lemma updateEmployee_without_password:
  assumes "getEmployee s (Some dni) None None = Some fe" and "dni \<noteq> 0"
    and "\<not> truthy_string (ue_password dto)"
    and "\<not> v (String_optnum (ue_dni dto))"
    and "ue_birthDate dto \<noteq> None" and "ue_homeAddress dto \<noteq> None"
    and "ue_mobilePhone dto \<noteq> None" and "ue_vaccinationStatus dto \<noteq> None"
    and "ue_firstName dto \<noteq> None" and "ue_lastName dto \<noteq> None"
    and "truthy_string (ue_email dto)" and "employee_user fe \<noteq> None"
  shows "fst (updateEmployee v h dni role (Some Type_UPDATE) (Some dto) s)
      = Inr (Updated \<lparr>u_message = ''The employee has been updated successfully'',
                      u_employee = dto\<rparr>)
    \<and> persons (snd (updateEmployee v h dni role (Some Type_UPDATE) (Some dto) s))
      = map (\<lambda>p. if Some (person_id p) = map_option person_id (employee_person fe)
                  then p\<lparr>person_firstName := set_field (ue_firstName dto) (person_firstName p),
                         person_lastName := set_field (ue_lastName dto) (person_lastName p)\<rparr>
                  else p) (persons s)"
  using assms(1-4)
  by (simp add: updateEmployee_def Type_UPDATE_def Type_DELETE_def updateBranch_def Let_def
      updatePerson_def employeeRepository_update_def updateuser_def set_field_def)

lemma demo_ana_update:
  "updateEmployee v h 12345678 role (Some Type_UPDATE) (Some dto) demo_store
     = updateBranch v h (joined demo_store (employees demo_store ! 0)) dto demo_store"
  by (rule updateEmployee_update_found [OF demo_ana]) simp

text \<open>
  C6 at a failing input. The dto's dni 99 fails the validator and the dto carries a
  password: the call does not complete, it raises the rejection of \<open>bcrypt.hash\<close>, after
  the person's names have been written and the dni left as it was.
\<close>

theorem updateEmployee_invalid_dni_with_password_raises:
  "\<not> demo_validateID (String_optnum (ue_dni (demo_update\<lparr>ue_password := Some ''secret''\<rparr>)))
   \<and> fst (updateEmployee demo_validateID demo_digest 12345678 None (Some Type_UPDATE)
          (Some (demo_update\<lparr>ue_password := Some ''secret''\<rparr>)) demo_store)
      = Inl BcryptError
   \<and> map person_firstName (persons (snd (updateEmployee demo_validateID demo_digest 12345678 None
        (Some Type_UPDATE) (Some (demo_update\<lparr>ue_password := Some ''secret''\<rparr>)) demo_store)))
      = [''Anna'', ''Luis'', ''Eva'']
   \<and> map person_dni (persons (snd (updateEmployee demo_validateID demo_digest 12345678 None
        (Some Type_UPDATE) (Some (demo_update\<lparr>ue_password := Some ''secret''\<rparr>)) demo_store)))
      = [12345678, 87654321, 55555555]"
  unfolding demo_ana_update
  by (simp add: updateBranch_def
      Let_def bcrypt_hash_def updatePerson_def employeeRepository_update_def set_field_def
      truthy_string_def demo_update_def demo_validateID_def String_optnum_def String_num_def
      string_of_nat.simps digit_char_def join_person_def demo_store_def)

text \<open>
  C7 at a failing input. The dto carries the password \<open>secret\<close>: the call raises, and
  no user row holds a digest of \<open>secret\<close>; the stored passwords are as before.
\<close>

theorem updateEmployee_password_not_hashed:
  "demo_validateID (String_optnum (ue_dni
      (demo_update\<lparr>ue_dni := Some 12345678, ue_password := Some ''secret''\<rparr>)))
   \<and> fst (updateEmployee demo_validateID demo_digest 12345678 None (Some Type_UPDATE)
          (Some (demo_update\<lparr>ue_dni := Some 12345678, ue_password := Some ''secret''\<rparr>))
          demo_store)
      = Inl BcryptError
   \<and> map ur_password (users (snd (updateEmployee demo_validateID demo_digest 12345678 None
        (Some Type_UPDATE)
        (Some (demo_update\<lparr>ue_dni := Some 12345678, ue_password := Some ''secret''\<rparr>))
        demo_store)))
      = [''old'', ''old'']
   \<and> demo_digest ''secret'' 10 = ''$2b$10$secret''"
  unfolding demo_ana_update
  by (simp add: updateBranch_def
      Let_def bcrypt_hash_def updatePerson_def employeeRepository_update_def set_field_def
      truthy_string_def demo_update_def demo_validateID_def String_optnum_def String_num_def
      string_of_nat.simps digit_char_def demo_digest_def join_person_def demo_store_def)

end
